theory Spec2Isabelle
  imports Complex_Main "HOL-Library.Word"
begin

unbundle bit_operations_syntax

section \<open>JSON values, errors and Python string helpers\<close>

text \<open>
  A decoded JSON document. An object is the list of its members in document order; as
  in a Python \<open>dict\<close> built from them, the last member with a given key is the one a
  lookup finds.
\<close>

datatype json =
    JNull
  | JBool bool
  | JNum int
  | JStr string
  | JArr "json list"
  | JObj "(string \<times> json) list"

type_synonym dict = "(string \<times> json) list"

definition dict_get :: "dict \<Rightarrow> string \<Rightarrow> json option" where
  \<comment> \<open>\<open>d.get(k)\<close>\<close>
  "dict_get d k = map_of (rev d) k"

definition dict_has :: "dict \<Rightarrow> string \<Rightarrow> bool" where
  \<comment> \<open>\<open>k in d\<close>\<close>
  "dict_has d k = (k \<in> fst ` set d)"

text \<open>
  Every exception the modelled code raises is a value of \<open>error\<close>; a function that can
  raise returns \<open>error + 'a\<close> with \<open>Inl\<close> for the exception. Each constructor stands
  for one raise site (the Python class and message are given beside it). Leading
  underscores of Python names are dropped, since an Isabelle name starts with a letter.
\<close>

datatype error =
    NonceUnavailable
      \<comment> \<open>ValueError("Unable to generate replay protection nonce")\<close>
  | MissingAbiOrChainId string
      \<comment> \<open>ValueError("Cannot build transaction: missing ABI for {function} or chain_id is None")\<close>
  | InvalidFunctionFormat string
      \<comment> \<open>ValueError("Invalid function format: {function}, expected 'address::module::function'")\<close>
  | ArgumentCountMismatch nat nat
      \<comment> \<open>ValueError("Argument count mismatch: expected {len(param_types)}, got {len(args)}")\<close>
  | SimulationNoResults
      \<comment> \<open>ValueError("Transaction simulation returned no results")\<close>
  | GasEstimateMissing
      \<comment> \<open>ValueError("Gas estimation returned no gas estimate")\<close>
  | FetchGasPriceFailed int string
      \<comment> \<open>ValueError("Failed to fetch gas price: {status_code} - {text}")\<close>
  | JsonParseFailure string
      \<comment> \<open>ValueError("Unhandled WebSocket message: failed to parse JSON: {data}")\<close>
  | MissingTopicField string
      \<comment> \<open>ValueError("Unhandled WebSocket message: missing topic field: {data}")\<close>
  | ExpectedStringData
      \<comment> \<open>ValueError("Unhandled WebSocket message: expected string data: {message}")\<close>
  | FeePayerNotConfigured
      \<comment> \<open>ValueError("Either gas_station_api_key or gas_station_url must be provided")\<close>
  | GasStationUrlRequired
      \<comment> \<open>ValueError("gas_station_url must be provided for custom networks when using gas_station_api_key")\<close>
  | TransactionFailed json
      \<comment> \<open>ValueError("Transaction failed: {vm_status}")\<close>
  | TimeoutError string real
      \<comment> \<open>TimeoutError("Transaction {tx_hash} did not complete within {timeout_secs}s")\<close>
  | CannotEncodeInt int nat
      \<comment> \<open>the BCS serializer's Exception("Cannot encode {value} into u{bits}") and uleb128's\<close>
  | OverflowError
      \<comment> \<open>int.to_bytes on a negative value with signed=False\<close>
  | LibraryError string
      \<comment> \<open>any exception raised inside an external library or the network layer\<close>
  | CancelledError
      \<comment> \<open>\<open>asyncio.CancelledError\<close>, raised at an \<open>await\<close> when the task is cancelled\<close>
  | KeyboardInterrupt
      \<comment> \<open>\<open>KeyboardInterrupt\<close> (and likewise \<open>SystemExit\<close>), raised during a blocking call\<close>

text \<open>
  The last two are \<open>BaseException\<close>s that are not \<open>Exception\<close>s: a clause
  \<open>except Exception\<close> does not catch them. Every other value stands for a subclass of
  \<open>Exception\<close>.
\<close>

definition is_Exception :: "error \<Rightarrow> bool" where
  \<comment> \<open>\<open>isinstance(e, Exception)\<close>\<close>
  "is_Exception e = (case e of CancelledError \<Rightarrow> False | KeyboardInterrupt \<Rightarrow> False | _ \<Rightarrow> True)"

type_synonym byte = "8 word"

definition is_space :: "char \<Rightarrow> bool" where
  \<comment> \<open>the ASCII characters that \<open>str.strip()\<close> removes\<close>
  "is_space c = (c \<in> set [CHR '' '', CHR 0x09, CHR 0x0A, CHR 0x0B, CHR 0x0C, CHR 0x0D,
                            CHR 0x1C, CHR 0x1D, CHR 0x1E, CHR 0x1F])"

definition strip :: "string \<Rightarrow> string" where
  "strip s = rev (dropWhile is_space (rev (dropWhile is_space s)))"

definition startswith :: "string \<Rightarrow> string \<Rightarrow> bool" where
  "startswith s p = (take (length p) s = p)"

definition endswith :: "string \<Rightarrow> string \<Rightarrow> bool" where
  "endswith s p = (length p \<le> length s \<and> drop (length s - length p) s = p)"

definition remove_char :: "char \<Rightarrow> string \<Rightarrow> string" where
  \<comment> \<open>\<open>s.replace(c, "")\<close> for a one-character \<open>c\<close>\<close>
  "remove_char c s = filter (\<lambda>x. x \<noteq> c) s"

fun split_colons :: "string \<Rightarrow> string \<Rightarrow> string list" where
  \<comment> \<open>\<open>s.split("::")\<close>: a left-to-right scan; the first argument is the current piece, reversed\<close>
  "split_colons acc [] = [rev acc]"
| "split_colons acc [c] = [rev (c # acc)]"
| "split_colons acc (c # d # cs) =
     (if c = CHR '':'' \<and> d = CHR '':'' then rev acc # split_colons [] cs
      else split_colons (c # acc) (d # cs))"

section \<open>The BCS serializer (external library \<open>aptos_sdk.bcs\<close>)\<close>

text \<open>
  The serializer's state is its output buffer; every write appends to it. The integer
  writers refuse a value above the type's maximum, and \<open>int.to_bytes\<close> refuses a
  negative one.
\<close>

type_synonym Serializer = "byte list"

definition MAX_U8 :: int where "MAX_U8 = 2 ^ 8 - 1"

definition MAX_U32 :: int where "MAX_U32 = 2 ^ 32 - 1"

definition MAX_U64 :: int where "MAX_U64 = 2 ^ 64 - 1"

definition le_bytes :: "nat \<Rightarrow> int \<Rightarrow> byte list" where
  \<comment> \<open>\<open>value.to_bytes(n, "little")\<close> for a value in range\<close>
  "le_bytes n v = map (\<lambda>i. word_of_int (drop_bit (8 * i) v)) [0..<n]"

definition u8 :: "int \<Rightarrow> Serializer \<Rightarrow> error + Serializer" where
  "u8 v buf =
     (if v > MAX_U8 then Inl (CannotEncodeInt v 8)
      else if v < 0 then Inl OverflowError
      else Inr (buf @ le_bytes 1 v))"

definition u64 :: "int \<Rightarrow> Serializer \<Rightarrow> error + Serializer" where
  "u64 v buf =
     (if v > MAX_U64 then Inl (CannotEncodeInt v 64)
      else if v < 0 then Inl OverflowError
      else Inr (buf @ le_bytes 8 v))"

function uleb128_loop :: "int \<Rightarrow> Serializer \<Rightarrow> error + Serializer" where
  "uleb128_loop v buf =
     (if v \<ge> 0x80 then
        (case u8 ((v AND 0x7F) OR 0x80) buf of
           Inl e \<Rightarrow> Inl e
         | Inr buf' \<Rightarrow> uleb128_loop (drop_bit 7 v) buf')
      else u8 (v AND 0x7F) buf)"
  by pat_completeness auto
termination
  by (relation "measure (\<lambda>(v, buf). nat v)") (auto simp: drop_bit_eq_div)

definition uleb128 :: "int \<Rightarrow> Serializer \<Rightarrow> error + Serializer" where
  "uleb128 v buf =
     (if v > MAX_U32 then Inl (CannotEncodeInt v 32) else uleb128_loop v buf)"

definition fixed_bytes :: "byte list \<Rightarrow> Serializer \<Rightarrow> error + Serializer" where
  "fixed_bytes bs buf = Inr (buf @ bs)"

definition bind_err :: "error + 'a \<Rightarrow> ('a \<Rightarrow> error + 'b) \<Rightarrow> error + 'b" where
  \<comment> \<open>sequencing two statements: an exception of the first skips the second\<close>
  "bind_err r f = (case r of Inl e \<Rightarrow> Inl e | Inr x \<Rightarrow> f x)"

section \<open>The transaction builder (\<open>_transaction_builder.py\<close>)\<close>

type_synonym AccountAddress = "byte list"

datatype StructTag = StructTag string

datatype TypeTag =
    TT_BOOL | TT_U8 | TT_U16 | TT_U32 | TT_U64 | TT_U128 | TT_U256
  | TT_ACCOUNT_ADDRESS | TT_SIGNER
  | TT_VECTOR TypeTag
  | TT_STRUCT StructTag

record EntryFunction =
  ef_module :: "AccountAddress \<times> string"
  ef_function :: string
  ef_ty_args :: "TypeTag list"
  ef_args :: "byte list list"

text \<open>
  What the builder takes from the external library \<open>aptos_sdk\<close>: parsing an address,
  parsing a struct tag, and the bytes \<open>EntryFunction.serialize\<close> writes (the entry
  function's own encoding). They are parameters of the model.
\<close>

record aptos_sdk =
  account_address_from_str :: "string \<Rightarrow> error + AccountAddress"
  struct_tag_from_str :: "string \<Rightarrow> error + StructTag"
  entry_function_encoding :: "EntryFunction \<Rightarrow> error + byte list"

definition DEADBEEF_SEQUENCE_NUMBER :: int where
  "DEADBEEF_SEQUENCE_NUMBER = 0xDEADBEEF"

definition PAYLOAD_VARIANT_ORDERLESS :: int where
  "PAYLOAD_VARIANT_ORDERLESS = 4"

definition INNER_PAYLOAD_VARIANT_V1 :: int where
  "INNER_PAYLOAD_VARIANT_V1 = 0"

definition EXECUTABLE_VARIANT_ENTRY_FUNCTION :: int where
  "EXECUTABLE_VARIANT_ENTRY_FUNCTION = 1"

definition EXTRA_CONFIG_VARIANT_V1 :: int where
  "EXTRA_CONFIG_VARIANT_V1 = 0"

record TransactionExtraConfigV1 =
  multisig_address :: "AccountAddress option"
  replay_protection_nonce :: "int option"

datatype TransactionExecutableEntryFunction =
  TransactionExecutableEntryFunction (entry_function: EntryFunction)

record TransactionInnerPayloadV1 =
  executable :: TransactionExecutableEntryFunction
  extra_config :: TransactionExtraConfigV1

datatype TransactionPayloadOrderless =
  TransactionPayloadOrderless (inner_payload: TransactionInnerPayloadV1)

definition TransactionExtraConfigV1_serialize ::
  "TransactionExtraConfigV1 \<Rightarrow> Serializer \<Rightarrow> error + Serializer" where
  "TransactionExtraConfigV1_serialize c s0 =
     bind_err (uleb128 EXTRA_CONFIG_VARIANT_V1 s0) (\<lambda>s1.
     bind_err (case multisig_address c of
                 None \<Rightarrow> u8 0 s1
               | Some a \<Rightarrow> bind_err (u8 1 s1) (fixed_bytes a)) (\<lambda>s2.
     (case replay_protection_nonce c of
        None \<Rightarrow> u8 0 s2
      | Some n \<Rightarrow> bind_err (u8 1 s2) (u64 n))))"

definition TransactionExecutableEntryFunction_serialize ::
  "aptos_sdk \<Rightarrow> TransactionExecutableEntryFunction \<Rightarrow> Serializer \<Rightarrow> error + Serializer" where
  "TransactionExecutableEntryFunction_serialize lib x s0 =
     bind_err (uleb128 EXECUTABLE_VARIANT_ENTRY_FUNCTION s0) (\<lambda>s1.
     bind_err (entry_function_encoding lib (entry_function x)) (\<lambda>bs. fixed_bytes bs s1))"

definition TransactionInnerPayloadV1_serialize ::
  "aptos_sdk \<Rightarrow> TransactionInnerPayloadV1 \<Rightarrow> Serializer \<Rightarrow> error + Serializer" where
  "TransactionInnerPayloadV1_serialize lib p s0 =
     bind_err (uleb128 INNER_PAYLOAD_VARIANT_V1 s0) (\<lambda>s1.
     bind_err (TransactionExecutableEntryFunction_serialize lib (executable p) s1) (\<lambda>s2.
     TransactionExtraConfigV1_serialize (extra_config p) s2))"

definition TransactionPayloadOrderless_serialize ::
  "aptos_sdk \<Rightarrow> TransactionPayloadOrderless \<Rightarrow> Serializer \<Rightarrow> error + Serializer" where
  "TransactionPayloadOrderless_serialize lib p s0 =
     bind_err (uleb128 PAYLOAD_VARIANT_ORDERLESS s0) (\<lambda>s1.
     TransactionInnerPayloadV1_serialize lib (inner_payload p) s1)"

record RawTransaction =
  sender :: AccountAddress
  sequence_number :: int
  payload :: TransactionPayloadOrderless
  max_gas_amount :: int
  gas_unit_price :: int
  expiration_timestamps_secs :: int
  chain_id :: int

record SimpleTransaction =
  raw_transaction :: RawTransaction
  fee_payer_address :: "AccountAddress option"

record 'v InputEntryFunctionData =
  function_id :: string
  function_arguments :: "'v list"
  type_arguments :: "string list option"

record MoveFunction =
  mf_name :: string
  mf_is_entry :: bool
  params :: "string list"

definition py_int_of_real :: "real \<Rightarrow> int" where
  \<comment> \<open>\<open>int(x)\<close> truncates towards zero\<close>
  "py_int_of_real x = (if x \<ge> 0 then \<lfloor>x\<rfloor> else \<lceil>x\<rceil>)"

definition generate_expire_timestamp :: "real \<Rightarrow> int \<Rightarrow> int \<Rightarrow> int" where
  \<comment> \<open>\<open>now\<close> is the reading of \<open>time.time()\<close>, taken as an exact real number\<close>
  "generate_expire_timestamp now time_delta_ms default_txn_expiry_sec =
     py_int_of_real ((now * 1000 + of_int time_delta_ms) / 1000) + default_txn_expiry_sec"

fun find_first_non_signer_arg_from :: "nat \<Rightarrow> string list \<Rightarrow> nat" where
  \<comment> \<open>the \<open>for i, param in enumerate(params)\<close> loop, \<open>i\<close> being the index reached\<close>
  "find_first_non_signer_arg_from i [] = i"
| "find_first_non_signer_arg_from i (param # rest) =
     (let normalized = strip (remove_char CHR ''&'' param)
      in if normalized \<noteq> ''signer'' then i
         else find_first_non_signer_arg_from (Suc i) rest)"

definition find_first_non_signer_arg :: "string list \<Rightarrow> nat" where
  "find_first_non_signer_arg ps = find_first_non_signer_arg_from 0 ps"

function parse_type_tag :: "aptos_sdk \<Rightarrow> string \<Rightarrow> error + TypeTag" where
  "parse_type_tag lib type_str0 =
     (let type_str = strip type_str0 in
      if type_str = ''bool'' then Inr TT_BOOL
      else if type_str = ''u8'' then Inr TT_U8
      else if type_str = ''u16'' then Inr TT_U16
      else if type_str = ''u32'' then Inr TT_U32
      else if type_str = ''u64'' then Inr TT_U64
      else if type_str = ''u128'' then Inr TT_U128
      else if type_str = ''u256'' then Inr TT_U256
      else if type_str = ''address'' then Inr TT_ACCOUNT_ADDRESS
      else if type_str = ''signer'' then Inr TT_SIGNER
      else if startswith type_str ''vector<'' \<and> endswith type_str ''>'' then
        (case parse_type_tag lib (butlast (drop 7 type_str)) of
           Inl e \<Rightarrow> Inl e
         | Inr inner_tag \<Rightarrow> Inr (TT_VECTOR inner_tag))
      else (case struct_tag_from_str lib type_str of
              Inl e \<Rightarrow> Inl e
            | Inr st \<Rightarrow> Inr (TT_STRUCT st)))"
  by pat_completeness auto

lemma length_strip_le: "length (strip s) \<le> length s"
  unfolding strip_def
  by (metis length_dropWhile_le length_rev order_trans)

termination parse_type_tag
proof (relation "measure (\<lambda>(lib, s). length s)")
  show "wf (measure (\<lambda>(lib, s). length s))" by simp
next
  fix lib :: aptos_sdk and type_str0 x :: string
  assume x: "x = strip type_str0"
    and v: "startswith x ''vector<'' \<and> endswith x ''>''"
  from v have "7 \<le> length x"
    by (auto simp: startswith_def dest!: arg_cong [where f = length])
  then have "length (butlast (drop 7 x)) < length x" by simp
  with length_strip_le [of type_str0] x
  show "((lib, butlast (drop 7 x)), (lib, type_str0)) \<in> measure (\<lambda>(lib, s). length s)"
    by simp
qed

fun parse_type_arguments :: "aptos_sdk \<Rightarrow> string list \<Rightarrow> error + TypeTag list" where
  \<comment> \<open>the list comprehension: left to right, the first exception ends it\<close>
  "parse_type_arguments lib [] = Inr []"
| "parse_type_arguments lib (t # ts) =
     bind_err (parse_type_tag lib t) (\<lambda>tag.
     bind_err (parse_type_arguments lib ts) (\<lambda>tags. Inr (tag # tags)))"

text \<open>
  \<open>_encode_argument\<close> coerces a dynamically typed Python value to the BCS bytes of a
  Move type named by a string. The value type \<open>'v\<close> and the encoder \<open>enc\<close> are
  parameters: the functions below only pass values to it and collect its results.
\<close>

fun encode_zip :: "('v \<Rightarrow> string \<Rightarrow> error + byte list) \<Rightarrow> ('v \<times> string) list \<Rightarrow> error + byte list list" where
  \<comment> \<open>the loop \<open>for arg, param_type in zip(args, param_types): encoded.append(...)\<close>\<close>
  "encode_zip enc [] = Inr []"
| "encode_zip enc ((arg, param_type) # rest) =
     bind_err (enc arg param_type) (\<lambda>b.
     bind_err (encode_zip enc rest) (\<lambda>bs. Inr (b # bs)))"

definition encode_function_arguments ::
  "('v \<Rightarrow> string \<Rightarrow> error + byte list) \<Rightarrow> 'v list \<Rightarrow> string list \<Rightarrow> error + byte list list" where
  "encode_function_arguments enc arguments param_types =
     (if length arguments \<noteq> length param_types
      then Inl (ArgumentCountMismatch (length param_types) (length arguments))
      else encode_zip enc (zip arguments param_types))"

definition build_entry_function ::
  "aptos_sdk \<Rightarrow> ('v \<Rightarrow> string \<Rightarrow> error + byte list) \<Rightarrow> 'v InputEntryFunctionData \<Rightarrow> MoveFunction
     \<Rightarrow> error + EntryFunction" where
  "build_entry_function lib enc data abi =
     (let parts = split_colons [] (function_id data) in
      if length parts \<noteq> 3 then Inl (InvalidFunctionFormat (function_id data))
      else
        let module_address = parts ! 0; module_name = parts ! 1; function_name = parts ! 2 in
        bind_err (account_address_from_str lib module_address) (\<lambda>addr.
        bind_err (parse_type_arguments lib
                    (case type_arguments data of None \<Rightarrow> [] | Some ts \<Rightarrow> ts)) (\<lambda>type_tags.
        let first_non_signer = find_first_non_signer_arg (params abi);
            entry_params = drop first_non_signer (params abi) in
        bind_err (encode_function_arguments enc (function_arguments data) entry_params) (\<lambda>encoded_args.
        Inr \<lparr>ef_module = (addr, module_name), ef_function = function_name,
             ef_ty_args = type_tags, ef_args = encoded_args\<rparr>))))"

definition build_simple_transaction_sync ::
  "aptos_sdk \<Rightarrow> ('v \<Rightarrow> string \<Rightarrow> error + byte list) \<Rightarrow> real
     \<Rightarrow> string + AccountAddress \<Rightarrow> 'v InputEntryFunctionData \<Rightarrow> int \<Rightarrow> int \<Rightarrow> MoveFunction
     \<Rightarrow> bool \<Rightarrow> int \<Rightarrow> int option \<Rightarrow> int option \<Rightarrow> int option
     \<Rightarrow> error + SimpleTransaction" where
  \<comment> \<open>an optional argument left out is \<open>None\<close>; the signature's defaults are written in\<close>
  "build_simple_transaction_sync lib enc now sender_arg data chain gas_price abi with_fee_payer
       nonce time_delta_ms_opt max_gas_amount_opt default_txn_expiry_sec_opt =
     (let time_delta_ms = (case time_delta_ms_opt of None \<Rightarrow> 0 | Some d \<Rightarrow> d);
          max_gas = (case max_gas_amount_opt of None \<Rightarrow> 100000 | Some g \<Rightarrow> g);
          default_txn_expiry_sec = (case default_txn_expiry_sec_opt of None \<Rightarrow> 20 | Some x \<Rightarrow> x)
      in
      bind_err (case sender_arg of Inl s \<Rightarrow> account_address_from_str lib s | Inr a \<Rightarrow> Inr a)
        (\<lambda>sender_address.
      bind_err (build_entry_function lib enc data abi) (\<lambda>ef.
      let exe = TransactionExecutableEntryFunction ef;
          cfg = \<lparr>multisig_address = None, replay_protection_nonce = Some nonce\<rparr>;
          inner = \<lparr>executable = exe, extra_config = cfg\<rparr>;
          pl = TransactionPayloadOrderless inner;
          expire_timestamp = generate_expire_timestamp now time_delta_ms default_txn_expiry_sec;
          raw_txn = \<lparr>sender = sender_address, sequence_number = DEADBEEF_SEQUENCE_NUMBER,
                     payload = pl, max_gas_amount = max_gas, gas_unit_price = gas_price,
                     expiration_timestamps_secs = expire_timestamp, chain_id = chain\<rparr>
      in
      bind_err (if with_fee_payer then map_sum id Some (account_address_from_str lib ''0x0'')
                else Inr None) (\<lambda>fee_payer.
      Inr \<lparr>raw_transaction = raw_txn, fee_payer_address = fee_payer\<rparr>))))"

text \<open>
  The spec's reading of "the declared parameter list after dropping the leading
  signer-type parameters", to compare with what \<open>build_entry_function\<close> computes.
\<close>

definition is_signer_param :: "string \<Rightarrow> bool" where
  "is_signer_param p = (strip (remove_char CHR ''&'' p) = ''signer'')"

definition spec_filtered_params :: "string list \<Rightarrow> string list" where
  "spec_filtered_params ps = dropWhile is_signer_param ps"

section \<open>The gas price manager (\<open>_gas_price_manager.py\<close>)\<close>

text \<open>
  What the node answers to \<open>GET /estimate_gas_price\<close> is an input of the model: the
  request raises (a network error, or a cancellation or interrupt arriving while it
  waits), or returns a non-success status, or returns a JSON body whose \<open>gas_estimate\<close>
  key is present or not.
\<close>

datatype estimate_reply =
    RequestRaised error
  | HttpStatus int string
  | EstimateBody "int option"

record GasPriceInfo =
  gas_estimate :: int
  timestamp :: real

datatype log_entry =
    LogError string error
  | LogWarning string error

record GasPriceManager =
  gpm_multiplier :: real
  gpm_gas_price :: "GasPriceInfo option"
  gpm_refresh_started :: bool
      \<comment> \<open>the refresh task (async) or refresh thread (sync) has been created\<close>
  gpm_is_initialized :: bool
  gpm_log :: "log_entry list"

definition new_GasPriceManager :: "real \<Rightarrow> GasPriceManager" where
  \<comment> \<open>\<open>__init__\<close>\<close>
  "new_GasPriceManager m =
     \<lparr>gpm_multiplier = m, gpm_gas_price = None, gpm_refresh_started = False,
      gpm_is_initialized = False, gpm_log = []\<rparr>"

definition get_gas_price :: "GasPriceManager \<Rightarrow> int option" where
  "get_gas_price s = (case gpm_gas_price s of None \<Rightarrow> None | Some i \<Rightarrow> Some (gas_estimate i))"

definition fetch_gas_price_estimation :: "real \<Rightarrow> estimate_reply \<Rightarrow> error + int" where
  "fetch_gas_price_estimation multiplier reply =
     (case reply of
        RequestRaised e \<Rightarrow> Inl e
      | HttpStatus code body \<Rightarrow> Inl (FetchGasPriceFailed code body)
      | EstimateBody g \<Rightarrow>
          Inr (py_int_of_real (of_int (case g of None \<Rightarrow> 0 | Some x \<Rightarrow> x) * multiplier)))"

definition fetch_and_set_gas_price ::
  "estimate_reply \<Rightarrow> real \<Rightarrow> GasPriceManager \<Rightarrow> (error + int) \<times> GasPriceManager" where
  \<comment> \<open>the clause \<open>except Exception\<close> logs and re-raises; anything else passes through it\<close>
  "fetch_and_set_gas_price reply now s =
     (case fetch_gas_price_estimation (gpm_multiplier s) reply of
        Inl e \<Rightarrow>
          if is_Exception e
          then (Inl e, s\<lparr>gpm_log := gpm_log s @ [LogError ''Failed to fetch gas price'' e]\<rparr>)
          else (Inl e, s)
      | Inr g \<Rightarrow>
          if g = 0
          then (Inl GasEstimateMissing,
                s\<lparr>gpm_log := gpm_log s @ [LogError ''Failed to fetch gas price'' GasEstimateMissing]\<rparr>)
          else (Inr g, s\<lparr>gpm_gas_price := Some \<lparr>gas_estimate = g, timestamp = now\<rparr>\<rparr>))"

definition GasPriceManager_initialize ::
  "estimate_reply \<Rightarrow> real \<Rightarrow> GasPriceManager \<Rightarrow> (error + unit) \<times> GasPriceManager" where
  \<comment> \<open>the async manager: \<open>asyncio.create_task\<close> inside a running coroutine does not raise.
      The clause \<open>except Exception\<close> catches and logs; what it does not catch leaves
      \<open>initialize\<close> as an exception\<close>
  "GasPriceManager_initialize reply now s =
     (if gpm_is_initialized s then (Inr (), s)
      else
        case fetch_and_set_gas_price reply now s of
          (Inr g, s1) \<Rightarrow> (Inr (), s1\<lparr>gpm_refresh_started := True, gpm_is_initialized := True\<rparr>)
        | (Inl e, s1) \<Rightarrow>
            if is_Exception e
            then (Inr (), s1\<lparr>gpm_log := gpm_log s1
                                @ [LogError ''Failed to initialize gas price manager'' e]\<rparr>)
            else (Inl e, s1))"

definition GasPriceManagerSync_initialize ::
  "estimate_reply \<Rightarrow> real \<Rightarrow> error option \<Rightarrow> GasPriceManager \<Rightarrow> (error + unit) \<times> GasPriceManager" where
  \<comment> \<open>the sync manager: \<open>thread_start\<close> is what \<open>Thread.start()\<close> raises, if anything; the
      thread object is assigned before it is started\<close>
  "GasPriceManagerSync_initialize reply now thread_start s =
     (if gpm_is_initialized s then (Inr (), s)
      else
        case fetch_and_set_gas_price reply now s of
          (Inr g, s1) \<Rightarrow>
            (case thread_start of
               None \<Rightarrow> (Inr (), s1\<lparr>gpm_refresh_started := True, gpm_is_initialized := True\<rparr>)
             | Some e \<Rightarrow>
                 if is_Exception e
                 then (Inr (), s1\<lparr>gpm_refresh_started := True,
                                   gpm_log := gpm_log s1
                                     @ [LogError ''Failed to initialize gas price manager'' e]\<rparr>)
                 else (Inl e, s1\<lparr>gpm_refresh_started := True\<rparr>))
        | (Inl e, s1) \<Rightarrow>
            if is_Exception e
            then (Inr (), s1\<lparr>gpm_log := gpm_log s1
                                @ [LogError ''Failed to initialize gas price manager'' e]\<rparr>)
            else (Inl e, s1))"

section \<open>The submission pipeline (\<open>_base.py\<close>, \<open>_utils.py\<close>)\<close>

text \<open>
  The random source is the infinite sequence of values that successive calls of
  \<open>secrets.randbits(32)\<close> return; drawing takes the head and leaves the tail.
\<close>

type_synonym rng = "nat \<Rightarrow> int"

definition randbits32 :: "rng \<Rightarrow> int \<times> rng" where
  "randbits32 r = (r 0, \<lambda>n. r (Suc n))"

definition generate_random_replay_protection_nonce :: "rng \<Rightarrow> int option \<times> rng" where
  "generate_random_replay_protection_nonce r0 =
     (let (b0, r1) = randbits32 r0;
          (b1, r2) = randbits32 r1
      in if b0 = 0 \<or> b1 = 0 then (None, r2)
         else (Some (push_bit 32 b0 OR b1), r2))"

definition DEFAULT_MAX_GAS_AMOUNT :: int where
  "DEFAULT_MAX_GAS_AMOUNT = 200000"

definition DEFAULT_GAS_ESTIMATE :: int where
  "DEFAULT_GAS_ESTIMATE = 100"

definition MAX_GAS_UNITS_LIMIT :: int where
  "MAX_GAS_UNITS_LIMIT = 2000000"

record BaseSDK =
  abi_registry :: "string \<Rightarrow> MoveFunction option"
  sdk_chain_id :: "int option"
  skip_simulate :: bool
  no_fee_payer :: bool
  sdk_time_delta_ms :: int
  gas_price_manager :: "GasPriceManager option"

text \<open>What one call of \<open>build_tx\<close> reads from outside: the random source, the node's
  answer to a gas price request (read only if a request is made) and the clock.\<close>

record build_io =
  io_rng :: rng
  io_estimate_reply :: estimate_reply
  io_now :: real

definition sdk_fetch_gas_price_estimation :: "estimate_reply \<Rightarrow> error + int" where
  \<comment> \<open>\<open>BaseSDK._fetch_gas_price_estimation\<close>\<close>
  "sdk_fetch_gas_price_estimation reply =
     (case reply of
        RequestRaised e \<Rightarrow> Inl e
      | HttpStatus code body \<Rightarrow> Inl (FetchGasPriceFailed code body)
      | EstimateBody g \<Rightarrow> Inr (case g of None \<Rightarrow> DEFAULT_GAS_ESTIMATE | Some x \<Rightarrow> x))"

definition build_tx ::
  "aptos_sdk \<Rightarrow> ('v \<Rightarrow> string \<Rightarrow> error + byte list) \<Rightarrow> build_io \<Rightarrow> BaseSDK
     \<Rightarrow> 'v InputEntryFunctionData \<Rightarrow> AccountAddress \<Rightarrow> int option \<Rightarrow> int option
     \<Rightarrow> (error + SimpleTransaction) \<times> BaseSDK \<times> rng" where
  \<comment> \<open>returns the result, the SDK object (its gas price manager may have stored a price)
      and the rest of the random source\<close>
  "build_tx lib enc io sdk data sender_address max_gas_amount_opt gas_unit_price_opt =
     (let function_abi = abi_registry sdk (function_id data);
          (nonce_opt, r) = generate_random_replay_protection_nonce (io_rng io)
      in case nonce_opt of
           None \<Rightarrow> (Inl NonceUnavailable, sdk, r)
         | Some nonce \<Rightarrow>
             (case (function_abi, sdk_chain_id sdk) of
                (Some abi, Some chain) \<Rightarrow>
                  let (price_res, sdk1) =
                        (case gas_unit_price_opt of
                           Some p \<Rightarrow> (Inr p, sdk)
                         | None \<Rightarrow>
                             (case gas_price_manager sdk of
                                Some m \<Rightarrow>
                                  (case get_gas_price m of
                                     Some cached_price \<Rightarrow> (Inr cached_price, sdk)
                                   | None \<Rightarrow>
                                       let (res, m1) = fetch_and_set_gas_price (io_estimate_reply io) (io_now io) m
                                       in (res, sdk\<lparr>gas_price_manager := Some m1\<rparr>))
                              | None \<Rightarrow> (sdk_fetch_gas_price_estimation (io_estimate_reply io), sdk)))
                  in (bind_err price_res (\<lambda>price.
                        build_simple_transaction_sync lib enc (io_now io) (Inr sender_address) data
                          chain price abi (\<not> no_fee_payer sdk) nonce (Some (sdk_time_delta_ms sdk))
                          (Some (case max_gas_amount_opt of
                                   None \<Rightarrow> DEFAULT_MAX_GAS_AMOUNT
                                 | Some g \<Rightarrow> if g = 0 then DEFAULT_MAX_GAS_AMOUNT else g))
                          None),
                      sdk1, r)
              | _ \<Rightarrow> (Inl (MissingAbiOrChainId (function_id data)), sdk, r)))"

text \<open>
  The simulation endpoint's answer: the request fails, or the first result is a JSON
  object. For each of the two keys read, \<open>None\<close> says \<open>.get\<close> returned None, and
  \<open>Some r\<close> carries the outcome of \<open>int(value)\<close>.
\<close>

record sim_result =
  sim_max_gas_amount :: "(error + int) option"
  sim_gas_unit_price :: "(error + int) option"

record send_io =
  first_build :: build_io
  simulation :: "error + sim_result"
  second_now :: real

definition send_tx_transaction ::
  "aptos_sdk \<Rightarrow> ('v \<Rightarrow> string \<Rightarrow> error + byte list) \<Rightarrow> send_io \<Rightarrow> BaseSDK
     \<Rightarrow> 'v InputEntryFunctionData \<Rightarrow> AccountAddress
     \<Rightarrow> (error + SimpleTransaction) \<times> BaseSDK \<times> rng" where
  \<comment> \<open>\<open>_send_tx\<close> up to the envelope that is signed and submitted\<close>
  "send_tx_transaction lib enc io sdk data sender_address =
     (case build_tx lib enc (first_build io) sdk data sender_address None None of
        (Inl e, sdk1, r1) \<Rightarrow> (Inl e, sdk1, r1)
      | (Inr transaction, sdk1, r1) \<Rightarrow>
          if \<not> skip_simulate sdk1 then
            (case simulation io of
               Inl e \<Rightarrow> (Inl e, sdk1, r1)
             | Inr res \<Rightarrow>
                 (case (sim_max_gas_amount res, sim_gas_unit_price res) of
                    (Some mg, Some gp) \<Rightarrow>
                      (case mg of
                         Inl e \<Rightarrow> (Inl e, sdk1, r1)
                       | Inr simulated_max_gas \<Rightarrow>
                           (case gp of
                              Inl e \<Rightarrow> (Inl e, sdk1, r1)
                            | Inr simulated_gas_price \<Rightarrow>
                                let max_gas = min (max (simulated_max_gas * 2) DEFAULT_MAX_GAS_AMOUNT)
                                                  MAX_GAS_UNITS_LIMIT;
                                    price = max simulated_gas_price 1
                                in build_tx lib enc
                                     \<lparr>io_rng = r1, io_estimate_reply = io_estimate_reply (first_build io),
                                      io_now = second_now io\<rparr>
                                     sdk1 data sender_address (Some max_gas) (Some price)))
                  | _ \<Rightarrow> (Inl SimulationNoResults, sdk1, r1)))
          else (Inr transaction, sdk1, r1))"

section \<open>Waiting for a transaction (\<open>BaseSDK._wait_for_transaction\<close>)\<close>

text \<open>
  One round of the poll loop sees what \<open>client.get\<close> gives: the request (or the decoding
  of its body) raises, or the status is not a success, or the body is a JSON object. The
  loop's input is the list of rounds still to come, each with the reading of
  \<open>time.time()\<close> taken after it; \<open>None\<close> says that the loop is still polling when the
  list ends.
\<close>

datatype poll_response =
    PollRaised error
  | PollFailure int string
  | PollSuccess dict

fun poll_loop ::
  "string \<Rightarrow> real \<Rightarrow> real \<Rightarrow> (poll_response \<times> real) list \<Rightarrow> (error + dict) option" where
  "poll_loop tx_hash timeout_secs start_time [] = None"
| "poll_loop tx_hash timeout_secs start_time ((response, now) # rest) =
     (let continue =
            (if now - start_time > timeout_secs
             then Some (Inl (TimeoutError tx_hash timeout_secs))
             else poll_loop tx_hash timeout_secs start_time rest)
      in case response of
           PollRaised e \<Rightarrow> Some (Inl e)
         | PollFailure code body \<Rightarrow> continue
         | PollSuccess data \<Rightarrow>
             if dict_get data ''type'' = Some (JStr ''pending_transaction'') then continue
             else if dict_get data ''success'' = Some (JBool True) then Some (Inr data)
             else if dict_get data ''success'' = Some (JBool False)
             then Some (Inl (TransactionFailed
                               (case dict_get data ''vm_status'' of
                                  None \<Rightarrow> JStr ''Unknown error''
                                | Some v \<Rightarrow> v)))
             else continue)"

definition wait_for_transaction ::
  "string \<Rightarrow> real option \<Rightarrow> real \<Rightarrow> (poll_response \<times> real) list \<Rightarrow> (error + dict) option" where
  \<comment> \<open>\<open>timeout_secs\<close> defaults to 30.0\<close>
  "wait_for_transaction tx_hash timeout_opt start_time rounds =
     poll_loop tx_hash (case timeout_opt of None \<Rightarrow> 30 | Some t \<Rightarrow> t) start_time rounds"

definition no_terminal_status :: "poll_response \<Rightarrow> bool" where
  \<comment> \<open>the spec's "no terminal status": an HTTP failure, or a body that is pending or has
      neither \<open>success = true\<close> nor \<open>success = false\<close>\<close>
  "no_terminal_status response =
     (case response of
        PollRaised e \<Rightarrow> False
      | PollFailure code body \<Rightarrow> True
      | PollSuccess data \<Rightarrow>
          dict_get data ''type'' = Some (JStr ''pending_transaction'')
          \<or> (dict_get data ''success'' \<noteq> Some (JBool True)
              \<and> dict_get data ''success'' \<noteq> Some (JBool False)))"

section \<open>The fee-payer relay (\<open>_fee_pay.py\<close>)\<close>

datatype Network = MAINNET | TESTNET | CUSTOM

record DecibelConfig =
  network :: Network
  fullnode_url :: string
  gas_station_url :: "string option"
  gas_station_api_key :: "string option"
  cfg_chain_id :: "int option"

definition truthy :: "string option \<Rightarrow> bool" where
  \<comment> \<open>\<open>if s:\<close> for an optional string: neither None nor empty\<close>
  "truthy s = (case s of None \<Rightarrow> False | Some x \<Rightarrow> x \<noteq> [])"

definition get_default_gas_station_url :: "DecibelConfig \<Rightarrow> error + string" where
  "get_default_gas_station_url config =
     (if network config = TESTNET then Inr ''https://api.testnet.aptoslabs.com/gs/v1''
      else if cfg_chain_id config = Some 208 then Inr ''https://api.netna.aptoslabs.com/gs/v1''
      else (case gas_station_url config of
              None \<Rightarrow> Inl GasStationUrlRequired
            | Some u \<Rightarrow> if u = [] then Inl GasStationUrlRequired else Inr u))"

text \<open>
  The POST a submission issues: its URL and, for the bearer-token relay, the
  \<open>Authorization\<close> header. (The f-string \<open>f"{config.gas_station_url}/transactions"\<close>
  prints \<open>None\<close> for a missing URL; the dispatcher only calls the legacy relay with a
  URL present.)
\<close>

datatype relay_request =
    BearerPost string string
  | LegacyPost string

definition submit_via_gas_station_api :: "DecibelConfig \<Rightarrow> error + relay_request" where
  "submit_via_gas_station_api config =
     bind_err (get_default_gas_station_url config) (\<lambda>base_url.
       Inr (BearerPost (base_url @ ''/api/transaction/signAndSubmit'')
              (''Bearer '' @ (case gas_station_api_key config of None \<Rightarrow> ''None'' | Some k \<Rightarrow> k))))"

definition submit_via_legacy_fee_payer :: "DecibelConfig \<Rightarrow> error + relay_request" where
  "submit_via_legacy_fee_payer config =
     Inr (LegacyPost ((case gas_station_url config of None \<Rightarrow> ''None'' | Some u \<Rightarrow> u)
                        @ ''/transactions''))"

definition submit_fee_paid_transaction :: "DecibelConfig \<Rightarrow> error + relay_request" where
  \<comment> \<open>which relay is called, and with which URL; the reply is not modelled\<close>
  "submit_fee_paid_transaction config =
     (if truthy (gas_station_api_key config) then submit_via_gas_station_api config
      else if truthy (gas_station_url config) then submit_via_legacy_fee_payer config
      else Inl FeePayerNotConfigured)"

section \<open>The WebSocket multiplexer (\<open>read/_ws.py\<close>)\<close>

text \<open>
  Two Python built-ins are parameters of the model: \<open>json_decode\<close> turns a text into a
  JSON document (\<open>None\<close> when \<open>json.loads\<close> raises \<open>JSONDecodeError\<close>), and \<open>int_of_str\<close>
  is \<open>int(s)\<close> on a string (\<open>None\<close> when it raises \<open>ValueError\<close>).
\<close>

record python_lib =
  json_decode :: "string \<Rightarrow> json option"
  int_of_str :: "string \<Rightarrow> int option"

definition bigint_reviver :: "(string \<Rightarrow> int option) \<Rightarrow> dict \<Rightarrow> error + json" where
  "bigint_reviver to_int obj =
     (case dict_get obj ''$bigint'' of
        Some (JStr s) \<Rightarrow>
          (case to_int s of
             None \<Rightarrow> Inl (LibraryError ''invalid literal for int()'')
           | Some i \<Rightarrow> Inr (JNum i))
      | _ \<Rightarrow> Inr (JObj obj))"

fun revive :: "(string \<Rightarrow> int option) \<Rightarrow> json \<Rightarrow> error + json"
  and revive_list :: "(string \<Rightarrow> int option) \<Rightarrow> json list \<Rightarrow> error + json list"
  and revive_members :: "(string \<Rightarrow> int option) \<Rightarrow> dict \<Rightarrow> error + dict" where
  \<comment> \<open>\<open>object_hook=bigint_reviver\<close>: the hook is applied to every object, innermost first\<close>
  "revive f (JObj ms) = bind_err (revive_members f ms) (bigint_reviver f)"
| "revive f (JArr xs) = bind_err (revive_list f xs) (\<lambda>ys. Inr (JArr ys))"
| "revive f JNull = Inr JNull"
| "revive f (JBool b) = Inr (JBool b)"
| "revive f (JNum n) = Inr (JNum n)"
| "revive f (JStr s) = Inr (JStr s)"
| "revive_list f [] = Inr []"
| "revive_list f (x # xs) =
     bind_err (revive f x) (\<lambda>y. bind_err (revive_list f xs) (\<lambda>ys. Inr (y # ys)))"
| "revive_members f [] = Inr []"
| "revive_members f (m # ms) =
     bind_err (revive f (snd m)) (\<lambda>w. bind_err (revive_members f ms) (\<lambda>ws. Inr ((fst m, w) # ws)))"

definition parse_message :: "python_lib \<Rightarrow> string \<Rightarrow> error + (string \<times> dict) option" where
  "parse_message py data =
     (case json_decode py data of
        None \<Rightarrow> Inl (JsonParseFailure data)
      | Some doc \<Rightarrow>
          bind_err (revive (int_of_str py) doc) (\<lambda>json_data.
            case json_data of
              JObj d \<Rightarrow>
                (case dict_get d ''topic'' of
                   Some (JStr topic) \<Rightarrow>
                     if dict_has d ''success'' then Inr None
                     else Inr (Some (topic, filter (\<lambda>(k, v). k \<noteq> ''topic'') d))
                 | _ \<Rightarrow> Inl (MissingTopicField data))
            | _ \<Rightarrow> Inl (MissingTopicField data)))"

datatype frame = TextFrame string | BinaryFrame "byte list"

text \<open>
  What the receive loop does with one inbound frame, given the topic map at that moment:
  it ends with an error (which is logged and passed to \<open>on_error\<close>), or goes on, having
  called the listeners of a topic with a payload or no one. A listener's own exception
  is logged and does not end the loop.
\<close>

datatype ws_event =
    Dispatched string "nat set" dict
  | LoopFailed error

definition handle_frame ::
  "python_lib \<Rightarrow> (string \<rightharpoonup> nat set) \<Rightarrow> frame \<Rightarrow> error + ws_event option" where
  "handle_frame py subs m =
     (case m of
        BinaryFrame bs \<Rightarrow> Inl ExpectedStringData
      | TextFrame data \<Rightarrow>
          bind_err (parse_message py data) (\<lambda>parsed.
            case parsed of
              None \<Rightarrow> Inr None
            | Some (topic, payload_data) \<Rightarrow>
                (case subs topic of
                   None \<Rightarrow> Inr None
                 | Some listeners \<Rightarrow>
                     if listeners \<noteq> {} then Inr (Some (Dispatched topic listeners payload_data))
                     else Inr None)))"

fun receive_loop :: "python_lib \<Rightarrow> ((string \<rightharpoonup> nat set) \<times> frame) list \<Rightarrow> ws_event list" where
  \<comment> \<open>the frames of one connection, each with the topic map current when it arrives\<close>
  "receive_loop py [] = []"
| "receive_loop py ((subs, m) # rest) =
     (case handle_frame py subs m of
        Inl e \<Rightarrow> [LoopFailed e]
      | Inr None \<Rightarrow> receive_loop py rest
      | Inr (Some ev) \<Rightarrow> ev # receive_loop py rest)"

text \<open>
  The multiplexer's state. A listener is the number of the closure \<open>subscribe\<close> created
  for it; \<open>tasks\<close> lists what was handed to \<open>asyncio.create_task\<close>, in order.
\<close>

datatype control = Subscribe string | Unsubscribe string

datatype task = SendTask control | OpenTask | DelayedCloseTask | ResetTask string

record ws_state =
  ws_open :: bool
  subscriptions :: "string \<rightharpoonup> nat set"
  close_timer_task :: bool
  tasks :: "task list"
  next_listener :: nat

definition ws_init :: ws_state where
  "ws_init = \<lparr>ws_open = False, subscriptions = Map.empty, close_timer_task = False, tasks = [],
              next_listener = 0\<rparr>"

definition subscribe :: "string \<Rightarrow> ws_state \<Rightarrow> (string \<times> nat) \<times> ws_state" where
  \<comment> \<open>returns the pair that the \<open>unsubscribe\<close> closure captures\<close>
  "subscribe topic s =
     (let listeners = (case subscriptions s topic of None \<Rightarrow> {} | Some ls \<Rightarrow> ls);
          is_new_topic = (listeners = {});
          listener = next_listener s;
          s1 = s\<lparr>subscriptions := (subscriptions s)(topic \<mapsto> insert listener listeners),
                 next_listener := Suc listener\<rparr>;
          s2 = (if is_new_topic \<and> ws_open s1
                then s1\<lparr>tasks := tasks s1 @ [SendTask (Subscribe topic)]\<rparr> else s1);
          s3 = (if \<not> ws_open s2 then s2\<lparr>tasks := tasks s2 @ [OpenTask]\<rparr> else s2);
          s4 = (if close_timer_task s3 then s3\<lparr>close_timer_task := False\<rparr> else s3)
      in ((topic, listener), s4))"

definition unsubscribe_topic :: "string \<Rightarrow> ws_state \<Rightarrow> ws_state" where
  "unsubscribe_topic topic s =
     (if topic \<notin> dom (subscriptions s) then s
      else
        let s1 = s\<lparr>subscriptions := (subscriptions s)(topic := None)\<rparr>;
            s2 = (if ws_open s1
                  then s1\<lparr>tasks := tasks s1 @ [SendTask (Unsubscribe topic)]\<rparr> else s1)
        in if dom (subscriptions s2) = {}
           then s2\<lparr>close_timer_task := True, tasks := tasks s2 @ [DelayedCloseTask]\<rparr>
           else s2)"

definition unsubscribe_listener :: "string \<Rightarrow> nat \<Rightarrow> ws_state \<Rightarrow> ws_state" where
  "unsubscribe_listener topic listener s =
     (case subscriptions s topic of
        None \<Rightarrow> s
      | Some listeners \<Rightarrow>
          let listeners' = listeners - {listener};
              s1 = s\<lparr>subscriptions := (subscriptions s)(topic \<mapsto> listeners')\<rparr>
          in if listeners' = {} then unsubscribe_topic topic s1 else s1)"

definition unsubscribe :: "string \<times> nat \<Rightarrow> ws_state \<Rightarrow> ws_state" where
  \<comment> \<open>the closure returned by \<open>subscribe\<close>\<close>
  "unsubscribe h s = unsubscribe_listener (fst h) (snd h) s"

definition delayed_close :: "ws_state \<Rightarrow> ws_state" where
  "delayed_close s =
     (if dom (subscriptions s) = {} \<and> ws_open s then s\<lparr>ws_open := False\<rparr> else s)"

definition close :: "ws_state \<Rightarrow> ws_state" where
  "close s = s\<lparr>subscriptions := Map.empty, close_timer_task := False, ws_open := False\<rparr>"

text \<open>
  One step of the multiplexer. The last rule stands for everything else the class does
  (opening and losing the connection, reconnecting, \<open>reset\<close>): none of it touches the
  topic map or the listener counter.
\<close>

inductive ws_step :: "ws_state \<Rightarrow> ws_state \<Rightarrow> bool" where
  step_subscribe: "ws_step s (snd (subscribe topic s))"
| step_unsubscribe: "ws_step s (unsubscribe_listener topic listener s)"
| step_delayed_close: "ws_step s (delayed_close s)"
| step_close: "ws_step s (close s)"
| step_connection: "ws_step s (s\<lparr>ws_open := b, close_timer_task := c, tasks := tasks s @ ts\<rparr>)"

definition reachable :: "ws_state \<Rightarrow> bool" where
  "reachable s = ws_step\<^sup>*\<^sup>* ws_init s"

definition ws_inv :: "ws_state \<Rightarrow> bool" where
  \<comment> \<open>no topic is kept with an empty listener set, and listener numbers are not reused\<close>
  "ws_inv s =
     (\<forall>t ls. subscriptions s t = Some ls \<longrightarrow> ls \<noteq> {} \<and> (\<forall>x\<in>ls. x < next_listener s))"

definition absent :: "string \<Rightarrow> nat \<Rightarrow> ws_state \<Rightarrow> bool" where
  \<comment> \<open>the listener has been issued and is not registered under the topic\<close>
  "absent topic l s =
     (l < next_listener s \<and> (case subscriptions s topic of None \<Rightarrow> True | Some ls \<Rightarrow> l \<notin> ls))"

section \<open>Example inputs\<close>

definition demo_lib :: aptos_sdk where
  "demo_lib = \<lparr>account_address_from_str = (\<lambda>s. Inr (replicate 32 0)),
               struct_tag_from_str = (\<lambda>s. Inr (StructTag s)),
               entry_function_encoding = (\<lambda>ef. Inr (concat (ef_args ef)))\<rparr>"

definition demo_enc :: "int \<Rightarrow> string \<Rightarrow> error + byte list" where
  "demo_enc v t =
     (if strip (remove_char CHR ''&'' t) = ''u8'' then u8 v [] else Inl (LibraryError t))"

definition demo_data :: "int InputEntryFunctionData" where
  "demo_data = \<lparr>function_id = ''0x1::m::f'', function_arguments = [7, 9], type_arguments = None\<rparr>"

definition demo_data_short :: "int InputEntryFunctionData" where
  "demo_data_short = \<lparr>function_id = ''0x1::m::f'', function_arguments = [7], type_arguments = None\<rparr>"

definition demo_abi :: MoveFunction where
  "demo_abi = \<lparr>mf_name = ''f'', mf_is_entry = True, params = [''&signer'', ''u8'', ''u8'']\<rparr>"

definition demo_entry_function :: EntryFunction where
  "demo_entry_function =
     \<lparr>ef_module = (replicate 32 0, ''m''), ef_function = ''f'', ef_ty_args = [],
      ef_args = [[7], [9]]\<rparr>"

definition demo_txn :: "int \<Rightarrow> int \<Rightarrow> int \<Rightarrow> SimpleTransaction" where
  \<comment> \<open>the envelope built for \<open>demo_data\<close> with the given nonce, gas ceiling and gas price\<close>
  "demo_txn n g p =
     \<lparr>raw_transaction =
        \<lparr>sender = replicate 32 0, sequence_number = 0xDEADBEEF,
         payload = TransactionPayloadOrderless
           \<lparr>executable = TransactionExecutableEntryFunction demo_entry_function,
            extra_config = \<lparr>multisig_address = None, replay_protection_nonce = Some n\<rparr>\<rparr>,
         max_gas_amount = g, gas_unit_price = p, expiration_timestamps_secs = 20,
         chain_id = 208\<rparr>,
      fee_payer_address = Some (replicate 32 0)\<rparr>"

definition demo_sdk :: BaseSDK where
  "demo_sdk =
     \<lparr>abi_registry = (\<lambda>f. if f = ''0x1::m::f'' then Some demo_abi else None),
      sdk_chain_id = Some 208, skip_simulate = False, no_fee_payer = False,
      sdk_time_delta_ms = 0, gas_price_manager = None\<rparr>"

definition demo_rng :: rng where
  \<comment> \<open>the draws 1, 2, 3, 4, ...\<close>
  "demo_rng n = int n + 1"

definition zero_first_rng :: rng where
  \<comment> \<open>the draws 0, 5, 7, 9, 11, ...: a degenerate pair followed by good ones\<close>
  "zero_first_rng n = (if n = 0 then 0 else 2 * int n + 3)"

definition demo_build_io :: "rng \<Rightarrow> build_io" where
  "demo_build_io r = \<lparr>io_rng = r, io_estimate_reply = EstimateBody (Some 100), io_now = 0\<rparr>"

definition demo_send_io :: send_io where
  \<comment> \<open>the simulation answers \<open>{"max_gas_amount": "60000", "gas_unit_price": "5"}\<close>\<close>
  "demo_send_io =
     \<lparr>first_build = demo_build_io demo_rng,
      simulation = Inr \<lparr>sim_max_gas_amount = Some (Inr 60000), sim_gas_unit_price = Some (Inr 5)\<rparr>,
      second_now = 0\<rparr>"

definition testnet_unconfigured :: DecibelConfig where
  \<comment> \<open>testnet, with neither a relay URL nor an API key\<close>
  "testnet_unconfigured =
     \<lparr>network = TESTNET, fullnode_url = ''https://api.testnet.aptoslabs.com/v1'',
      gas_station_url = None, gas_station_api_key = None, cfg_chain_id = Some 2\<rparr>"

definition netna_unconfigured :: DecibelConfig where
  \<comment> \<open>the custom chain 208, with neither a relay URL nor an API key\<close>
  "netna_unconfigured =
     \<lparr>network = CUSTOM, fullnode_url = ''https://api.netna.staging.aptoslabs.com/v1'',
      gas_station_url = None, gas_station_api_key = None, cfg_chain_id = Some 208\<rparr>"

definition local_config :: DecibelConfig where
  \<comment> \<open>\<open>LOCAL_CONFIG\<close>: a relay URL and no API key\<close>
  "local_config =
     \<lparr>network = CUSTOM, fullnode_url = ''http://localhost:8080/v1'',
      gas_station_url = Some ''http://localhost:8085'', gas_station_api_key = None,
      cfg_chain_id = None\<rparr>"

definition testnet_with_key :: DecibelConfig where
  "testnet_with_key =
     \<lparr>network = TESTNET, fullnode_url = ''https://api.testnet.aptoslabs.com/v1'',
      gas_station_url = Some ''http://localhost:8085'', gas_station_api_key = Some ''k'',
      cfg_chain_id = Some 2\<rparr>"

definition failing_rounds :: "(poll_response \<times> real) list" where
  \<comment> \<open>three polls answered 503, the clock reading 1, 2 and 31 seconds after the start\<close>
  "failing_rounds =
     [(PollFailure 503 ''busy'', 1), (PollFailure 503 ''busy'', 2), (PollFailure 503 ''busy'', 31)]"

definition ws_subscribed :: ws_state where
  \<comment> \<open>the fresh multiplexer after \<open>subscribe("prices", ...)\<close>\<close>
  "ws_subscribed =
     \<lparr>ws_open = False, subscriptions = [''prices'' \<mapsto> {0}], close_timer_task = False,
      tasks = [OpenTask], next_listener = 1\<rparr>"

definition ws_connected :: ws_state where
  \<comment> \<open>the same once the connection is open\<close>
  "ws_connected = ws_subscribed\<lparr>ws_open := True, close_timer_task := False,
                                 tasks := tasks ws_subscribed @ []\<rparr>"

definition ack_with_topic :: string where
  \<open>ack_with_topic = ''{"topic": "prices", "success": true}''\<close>

definition ack_without_topic :: string where
  \<open>ack_without_topic = ''{"success": true}''\<close>

definition demo_py :: python_lib where
  \<comment> \<open>a decoder that knows the two acknowledgement texts, and no big integers\<close>
  "demo_py =
     \<lparr>json_decode = (\<lambda>s.
        if s = ack_with_topic then Some (JObj [(''topic'', JStr ''prices''), (''success'', JBool True)])
        else if s = ack_without_topic then Some (JObj [(''success'', JBool True)])
        else None),
      int_of_str = (\<lambda>s. None)\<rparr>"

definition demo_subs :: "string \<rightharpoonup> nat set" where
  "demo_subs = [''prices'' \<mapsto> {0}]"


section \<open>Helper lemmas\<close>

lemma bind_err_Inr [simp]: "bind_err (Inr x) f = f x"
  by (simp add: bind_err_def)

lemma bind_err_Inl [simp]: "bind_err (Inl e) f = Inl e"
  by (simp add: bind_err_def)

lemma bind_err_eq_Inr: "bind_err r f = Inr y \<longleftrightarrow> (\<exists>x. r = Inr x \<and> f x = Inr y)"
  by (cases r) simp_all

lemma uleb128_4: "uleb128 4 buf = Inr (buf @ [4])"
  by (simp add: uleb128_def MAX_U32_def u8_def MAX_U8_def le_bytes_def)

lemma uleb128_0: "uleb128 0 buf = Inr (buf @ [0])"
  by (simp add: uleb128_def MAX_U32_def u8_def MAX_U8_def le_bytes_def)

lemma uleb128_1: "uleb128 1 buf = Inr (buf @ [1])"
  by (simp add: uleb128_def MAX_U32_def u8_def MAX_U8_def le_bytes_def)

lemma u8_0: "u8 0 buf = Inr (buf @ [0])"
  by (simp add: u8_def MAX_U8_def le_bytes_def)

lemma u8_1: "u8 1 buf = Inr (buf @ [1])"
  by (simp add: u8_def MAX_U8_def le_bytes_def)

lemma extra_config_nonce_bytes:
  "TransactionExtraConfigV1_serialize
     \<lparr>multisig_address = None, replay_protection_nonce = Some n\<rparr> buf =
     (if n > MAX_U64 then Inl (CannotEncodeInt n 64)
      else if n < 0 then Inl OverflowError
      else Inr (buf @ [0, 0, 1] @ le_bytes 8 n))"
  by (simp add: TransactionExtraConfigV1_serialize_def EXTRA_CONFIG_VARIANT_V1_def
      uleb128_0 u8_0 u8_1 u64_def)

lemma orderless_bytes:
  "TransactionPayloadOrderless_serialize lib
     (TransactionPayloadOrderless
        \<lparr>executable = TransactionExecutableEntryFunction ef,
         extra_config = \<lparr>multisig_address = None, replay_protection_nonce = Some n\<rparr>\<rparr>) buf =
     (case entry_function_encoding lib ef of
        Inl e \<Rightarrow> Inl e
      | Inr ef_bytes \<Rightarrow>
          if n > MAX_U64 then Inl (CannotEncodeInt n 64)
          else if n < 0 then Inl OverflowError
          else Inr (buf @ [4, 0, 1] @ ef_bytes @ [0, 0, 1] @ le_bytes 8 n))"
  by (simp add: TransactionPayloadOrderless_serialize_def TransactionInnerPayloadV1_serialize_def
      TransactionExecutableEntryFunction_serialize_def PAYLOAD_VARIANT_ORDERLESS_def
      INNER_PAYLOAD_VARIANT_V1_def EXECUTABLE_VARIANT_ENTRY_FUNCTION_def
      uleb128_4 uleb128_0 uleb128_1 fixed_bytes_def extra_config_nonce_bytes
      split: sum.splits)

lemma build_simple_transaction_sync_Inr:
  assumes "build_simple_transaction_sync lib enc now sender_arg data chain gas_price abi
             with_fee_payer nonce td mg ex = Inr txn"
  shows "\<exists>ef. build_entry_function lib enc data abi = Inr ef
           \<and> sequence_number (raw_transaction txn) = DEADBEEF_SEQUENCE_NUMBER
           \<and> payload (raw_transaction txn) =
               TransactionPayloadOrderless
                 \<lparr>executable = TransactionExecutableEntryFunction ef,
                  extra_config = \<lparr>multisig_address = None, replay_protection_nonce = Some nonce\<rparr>\<rparr>
           \<and> max_gas_amount (raw_transaction txn) = (case mg of None \<Rightarrow> 100000 | Some g \<Rightarrow> g)
           \<and> gas_unit_price (raw_transaction txn) = gas_price
           \<and> chain_id (raw_transaction txn) = chain"
  using assms
  unfolding build_simple_transaction_sync_def Let_def
  by (auto simp: bind_err_eq_Inr)

lemma le_bytes_8_258: "le_bytes 8 258 = [2, 1, 0, 0, 0, 0, 0, 0]"
  by code_simp

lemma demo_build_entry_function:
  "build_entry_function demo_lib demo_enc demo_data demo_abi = Inr demo_entry_function"
  by (simp add: build_entry_function_def demo_lib_def demo_enc_def demo_data_def demo_abi_def
      demo_entry_function_def find_first_non_signer_arg_def strip_def remove_char_def
      is_space_def encode_function_arguments_def u8_def MAX_U8_def le_bytes_def)

lemma demo_build_simple_transaction:
  "build_simple_transaction_sync demo_lib demo_enc 0 (Inl ''0xA'') demo_data 208 p demo_abi
     True n None mg None = Inr (demo_txn n (case mg of None \<Rightarrow> 100000 | Some g \<Rightarrow> g) p)"
  by (simp add: build_simple_transaction_sync_def demo_build_entry_function demo_txn_def
      DEADBEEF_SEQUENCE_NUMBER_def generate_expire_timestamp_def py_int_of_real_def
      split: option.splits)
    (simp add: demo_lib_def)

lemma demo_build_simple_transaction_Inr:
  "build_simple_transaction_sync demo_lib demo_enc 0 (Inr (replicate 32 0)) demo_data 208 p
     demo_abi True n (Some 0) (Some g) None = Inr (demo_txn n g p)"
  by (simp add: build_simple_transaction_sync_def demo_build_entry_function demo_txn_def
      DEADBEEF_SEQUENCE_NUMBER_def generate_expire_timestamp_def py_int_of_real_def)
    (simp add: demo_lib_def)

section \<open>The orderless payload encoding\<close>

text \<open>
  Claim C1. Every transaction that \<open>build_simple_transaction_sync\<close> returns carries the
  sentinel sequence number \<open>0xDEADBEEF\<close>, and serializing its payload appends exactly:
  the orderless variant tag 4, the inner payload version 0, the entry-function tag 1,
  the entry function's own encoding, then the extra-config block: version 0, the
  absent-multisig byte 0, the present-nonce byte 1 and the nonce in eight little-endian
  bytes. (The serializer raises instead when the nonce is outside \<open>0 .. 2^64 - 1\<close> or the
  entry function itself cannot be encoded.)
\<close>

theorem orderless_payload_encoding:
  assumes "build_simple_transaction_sync lib enc now sender_arg data chain gas_price abi
             with_fee_payer nonce td mg ex = Inr txn"
  shows "sequence_number (raw_transaction txn) = 0xDEADBEEF \<and>
         (\<exists>ef. build_entry_function lib enc data abi = Inr ef \<and>
            TransactionPayloadOrderless_serialize lib (payload (raw_transaction txn)) buf =
              (case entry_function_encoding lib ef of
                 Inl e \<Rightarrow> Inl e
               | Inr ef_bytes \<Rightarrow>
                   if nonce > MAX_U64 then Inl (CannotEncodeInt nonce 64)
                   else if nonce < 0 then Inl OverflowError
                   else Inr (buf @ [4, 0, 1] @ ef_bytes @ [0, 0, 1] @ le_bytes 8 nonce)))"
proof -
  from build_simple_transaction_sync_Inr [OF assms] obtain ef where
    ef: "build_entry_function lib enc data abi = Inr ef"
    and sq: "sequence_number (raw_transaction txn) = DEADBEEF_SEQUENCE_NUMBER"
    and pl: "payload (raw_transaction txn) =
               TransactionPayloadOrderless
                 \<lparr>executable = TransactionExecutableEntryFunction ef,
                  extra_config = \<lparr>multisig_address = None, replay_protection_nonce = Some nonce\<rparr>\<rparr>"
    by blast
  from sq have "sequence_number (raw_transaction txn) = 0xDEADBEEF"
    by (simp add: DEADBEEF_SEQUENCE_NUMBER_def)
  moreover have "TransactionPayloadOrderless_serialize lib (payload (raw_transaction txn)) buf =
              (case entry_function_encoding lib ef of
                 Inl e \<Rightarrow> Inl e
               | Inr ef_bytes \<Rightarrow>
                   if nonce > MAX_U64 then Inl (CannotEncodeInt nonce 64)
                   else if nonce < 0 then Inl OverflowError
                   else Inr (buf @ [4, 0, 1] @ ef_bytes @ [0, 0, 1] @ le_bytes 8 nonce))"
    unfolding pl by (rule orderless_bytes)
  ultimately show ?thesis using ef by blast
qed

theorem orderless_payload_encoding_witness:
  "build_simple_transaction_sync demo_lib demo_enc 0 (Inl ''0xA'') demo_data 208 100 demo_abi
     True 258 None None None = Inr (demo_txn 258 100000 100)
   \<and> sequence_number (raw_transaction (demo_txn 258 100000 100)) = 0xDEADBEEF
   \<and> TransactionPayloadOrderless_serialize demo_lib (payload (raw_transaction (demo_txn 258 100000 100))) []
       = Inr [4, 0, 1, 7, 9, 0, 0, 1, 2, 1, 0, 0, 0, 0, 0, 0]"
proof -
  have b: "build_simple_transaction_sync demo_lib demo_enc 0 (Inl ''0xA'') demo_data 208 100
             demo_abi True 258 None None None = Inr (demo_txn 258 100000 100)"
    using demo_build_simple_transaction [of 100 258 None] by simp
  from orderless_payload_encoding [OF b, of "[]"] show ?thesis
    using b
    by (simp add: demo_build_entry_function)
      (simp add: demo_lib_def demo_entry_function_def MAX_U64_def le_bytes_8_258)
qed

section \<open>Argument count and positional encoding\<close>

lemma find_first_non_signer_arg_from_eq:
  "find_first_non_signer_arg_from i ps = i + length (takeWhile is_signer_param ps)"
  by (induction ps arbitrary: i) (simp_all add: is_signer_param_def Let_def)

lemma drop_first_non_signer:
  "drop (find_first_non_signer_arg ps) ps = spec_filtered_params ps"
  by (simp add: find_first_non_signer_arg_def find_first_non_signer_arg_from_eq
      spec_filtered_params_def dropWhile_eq_drop)

lemma encode_zip_Inr_iff:
  "encode_zip enc xs = Inr bs \<longleftrightarrow>
     length bs = length xs \<and> (\<forall>i<length xs. enc (fst (xs ! i)) (snd (xs ! i)) = Inr (bs ! i))"
proof (induction xs arbitrary: bs)
  case Nil
  then show ?case by auto
next
  case (Cons x xs)
  obtain a p where x: "x = (a, p)" by (cases x)
  show ?case
  proof (cases bs)
    case Nil
    then show ?thesis by (auto simp: x bind_err_eq_Inr)
  next
    case (Cons b bs')
    then show ?thesis
      using Cons.IH [of bs']
      by (auto simp: x bind_err_eq_Inr less_Suc_eq_0_disj)
  qed
qed

lemma encode_function_arguments_Inr_iff:
  assumes "length arguments = length param_types"
  shows "encode_function_arguments enc arguments param_types = Inr bs \<longleftrightarrow>
     length bs = length arguments \<and>
     (\<forall>i<length arguments. enc (arguments ! i) (param_types ! i) = Inr (bs ! i))"
  using assms by (simp add: encode_function_arguments_def encode_zip_Inr_iff)

lemma build_entry_function_Inr:
  assumes "build_entry_function lib enc data abi = Inr ef"
  shows "encode_function_arguments enc (function_arguments data)
           (drop (find_first_non_signer_arg (params abi)) (params abi)) = Inr (ef_args ef)"
  using assms
  unfolding build_entry_function_def Let_def
  by (auto simp: bind_err_eq_Inr split: if_splits)

text \<open>
  Claim C7. \<open>build_entry_function\<close> drops the leading signer parameters of the ABI
  (\<open>drop (find_first_non_signer_arg ps) ps\<close>, which is \<open>spec_filtered_params ps\<close>) and
  hands the rest to \<open>encode_function_arguments\<close>. When the caller's argument count
  differs from the filtered parameter count, the encoding fails with the count-mismatch
  error and neither an entry function nor an envelope is produced. When the counts agree,
  the encoding succeeds with \<open>bs\<close> exactly when \<open>bs\<close> has one entry per argument and
  entry \<open>i\<close> is the encoding of argument \<open>i\<close> against filtered parameter \<open>i\<close>; these
  are the arguments of the entry function that is built.
\<close>

theorem argument_count_checked:
  "(length (function_arguments data) \<noteq> length (spec_filtered_params (params abi)) \<longrightarrow>
      encode_function_arguments enc (function_arguments data)
          (drop (find_first_non_signer_arg (params abi)) (params abi))
        = Inl (ArgumentCountMismatch (length (spec_filtered_params (params abi)))
                 (length (function_arguments data)))
      \<and> (\<forall>ef. build_entry_function lib enc data abi \<noteq> Inr ef)
      \<and> (\<forall>txn. build_simple_transaction_sync lib enc now sender_arg data chain gas_price abi
                  with_fee_payer nonce td mg ex \<noteq> Inr txn))
   \<and> (length (function_arguments data) = length (spec_filtered_params (params abi)) \<longrightarrow>
        (\<forall>bs. encode_function_arguments enc (function_arguments data)
                (drop (find_first_non_signer_arg (params abi)) (params abi)) = Inr bs
             \<longleftrightarrow> length bs = length (function_arguments data) \<and>
                 (\<forall>i<length (function_arguments data).
                    enc (function_arguments data ! i) (spec_filtered_params (params abi) ! i)
                      = Inr (bs ! i)))
        \<and> (\<forall>ef. build_entry_function lib enc data abi = Inr ef \<longrightarrow>
              length (ef_args ef) = length (function_arguments data) \<and>
              (\<forall>i<length (function_arguments data).
                 enc (function_arguments data ! i) (spec_filtered_params (params abi) ! i)
                   = Inr (ef_args ef ! i))))"
proof (intro conjI impI allI)
  assume ne: "length (function_arguments data) \<noteq> length (spec_filtered_params (params abi))"
  show mis: "encode_function_arguments enc (function_arguments data)
          (drop (find_first_non_signer_arg (params abi)) (params abi))
        = Inl (ArgumentCountMismatch (length (spec_filtered_params (params abi)))
                 (length (function_arguments data)))"
    using ne by (simp add: encode_function_arguments_def drop_first_non_signer)
  show nef: "build_entry_function lib enc data abi \<noteq> Inr ef" for ef
    using build_entry_function_Inr [of lib enc data abi ef] mis by auto
  show "build_simple_transaction_sync lib enc now sender_arg data chain gas_price abi
                  with_fee_payer nonce td mg ex \<noteq> Inr txn" for txn
    using nef unfolding build_simple_transaction_sync_def Let_def
    by (auto simp: bind_err_eq_Inr)
next
  fix bs
  assume eq: "length (function_arguments data) = length (spec_filtered_params (params abi))"
  show "encode_function_arguments enc (function_arguments data)
                (drop (find_first_non_signer_arg (params abi)) (params abi)) = Inr bs
             \<longleftrightarrow> length bs = length (function_arguments data) \<and>
                 (\<forall>i<length (function_arguments data).
                    enc (function_arguments data ! i) (spec_filtered_params (params abi) ! i)
                      = Inr (bs ! i))"
    using eq encode_function_arguments_Inr_iff [of "function_arguments data" "spec_filtered_params (params abi)" enc bs]
    by (simp add: drop_first_non_signer)
next
  fix ef
  assume eq: "length (function_arguments data) = length (spec_filtered_params (params abi))"
    and b: "build_entry_function lib enc data abi = Inr ef"
  from build_entry_function_Inr [OF b]
  have "encode_function_arguments enc (function_arguments data)
          (spec_filtered_params (params abi)) = Inr (ef_args ef)"
    by (simp add: drop_first_non_signer)
  with encode_function_arguments_Inr_iff [OF eq, of enc "ef_args ef"]
  show "length (ef_args ef) = length (function_arguments data)"
    by simp
next
  fix ef i
  assume eq: "length (function_arguments data) = length (spec_filtered_params (params abi))"
    and b: "build_entry_function lib enc data abi = Inr ef"
    and i: "i < length (function_arguments data)"
  from build_entry_function_Inr [OF b]
  have "encode_function_arguments enc (function_arguments data)
          (spec_filtered_params (params abi)) = Inr (ef_args ef)"
    by (simp add: drop_first_non_signer)
  with encode_function_arguments_Inr_iff [OF eq, of enc "ef_args ef"] i
  show "enc (function_arguments data ! i) (spec_filtered_params (params abi) ! i)
          = Inr (ef_args ef ! i)"
    by simp
qed

lemma demo_filtered: "spec_filtered_params (params demo_abi) = [''u8'', ''u8'']"
  by (simp add: spec_filtered_params_def demo_abi_def is_signer_param_def strip_def
      remove_char_def is_space_def)

theorem argument_count_checked_witness:
  "length (function_arguments demo_data_short) \<noteq> length (spec_filtered_params (params demo_abi))
   \<and> encode_function_arguments demo_enc (function_arguments demo_data_short)
          (drop (find_first_non_signer_arg (params demo_abi)) (params demo_abi))
        = Inl (ArgumentCountMismatch 2 1)
   \<and> build_simple_transaction_sync demo_lib demo_enc 0 (Inl ''0xA'') demo_data_short 208 100
        demo_abi True 258 None None None \<noteq> Inr (demo_txn 258 100000 100)
   \<and> length (function_arguments demo_data) = length (spec_filtered_params (params demo_abi))
   \<and> build_entry_function demo_lib demo_enc demo_data demo_abi = Inr demo_entry_function
   \<and> demo_enc (function_arguments demo_data ! 1) (spec_filtered_params (params demo_abi) ! 1)
        = Inr (ef_args demo_entry_function ! 1)"
proof -
  have s: "length (function_arguments demo_data_short) \<noteq> length (spec_filtered_params (params demo_abi))"
    by (simp add: demo_filtered demo_data_short_def)
  have l: "length (function_arguments demo_data) = length (spec_filtered_params (params demo_abi))"
    by (simp add: demo_filtered demo_data_def)
  note a = argument_count_checked [of demo_data_short demo_abi demo_enc demo_lib 0 "Inl ''0xA''"
      208 100 True 258 None None None, THEN conjunct1, rule_format, OF s]
  note b = argument_count_checked [of demo_data demo_abi demo_enc demo_lib 0 "Inl ''0xA''"
      208 100 True 258 None None None, THEN conjunct2, rule_format, OF l, THEN conjunct2,
      rule_format, OF demo_build_entry_function]
  have one: "(1::nat) < length (function_arguments demo_data)"
    by (simp add: demo_data_def)
  from a b [THEN conjunct2, rule_format, OF one] s l show ?thesis
    by (simp add: demo_filtered demo_data_short_def demo_build_entry_function)
qed

section \<open>The build step and the gas rebuild\<close>

lemma generate_nonce_eq:
  "generate_random_replay_protection_nonce r =
     (if r 0 = 0 \<or> r 1 = 0 then None else Some (push_bit 32 (r 0) OR r 1), \<lambda>n. r (n + 2))"
  by (simp add: generate_random_replay_protection_nonce_def randbits32_def)

lemma build_tx_Inr:
  assumes "build_tx lib enc io sdk data sender_address mg gp = (Inr txn, sdk', r')"
  shows "max_gas_amount (raw_transaction txn) =
           (case mg of None \<Rightarrow> 200000 | Some g \<Rightarrow> if g = 0 then 200000 else g)
         \<and> (\<forall>p. gp = Some p \<longrightarrow> gas_unit_price (raw_transaction txn) = p)
         \<and> io_rng io 0 \<noteq> 0 \<and> io_rng io 1 \<noteq> 0
         \<and> replay_protection_nonce (extra_config (inner_payload (payload (raw_transaction txn))))
             = Some (push_bit 32 (io_rng io 0) OR io_rng io 1)
         \<and> skip_simulate sdk' = skip_simulate sdk"
  using assms
  unfolding build_tx_def Let_def generate_nonce_eq
  by (auto simp: bind_err_eq_Inr DEFAULT_MAX_GAS_AMOUNT_def
      split: if_splits option.splits prod.splits sum.splits
      dest!: build_simple_transaction_sync_Inr)

lemma build_tx_skip_simulate:
  "build_tx lib enc io sdk data sender_address mg gp = (res, sdk', r')
     \<Longrightarrow> skip_simulate sdk' = skip_simulate sdk"
  unfolding build_tx_def Let_def generate_nonce_eq
  by (auto split: if_splits option.splits prod.splits)

text \<open>
  Claim C2. When the send flow simulates (\<open>skip_simulate\<close> is off) and the simulation
  answers with integers \<open>simulated_max_gas\<close> and \<open>simulated_gas_price\<close>, the envelope
  that the flow goes on to sign is rebuilt with max gas amount
  \<open>min (max (2 * simulated_max_gas) 200000) 2000000\<close> and gas unit price
  \<open>max simulated_gas_price 1\<close>, for all integers.
\<close>

theorem simulated_gas_rebuild:
  assumes "\<not> skip_simulate sdk"
    and "simulation io = Inr res"
    and "sim_max_gas_amount res = Some (Inr simulated_max_gas)"
    and "sim_gas_unit_price res = Some (Inr simulated_gas_price)"
    and "fst (send_tx_transaction lib enc io sdk data sender_address) = Inr txn"
  shows "max_gas_amount (raw_transaction txn) = min (max (2 * simulated_max_gas) 200000) 2000000
       \<and> gas_unit_price (raw_transaction txn) = max simulated_gas_price 1"
proof -
  obtain r1 sdk1 r1' where
    first: "build_tx lib enc (first_build io) sdk data sender_address None None = (r1, sdk1, r1')"
    by (metis prod_cases3)
  obtain sdk' r' where
    fin: "send_tx_transaction lib enc io sdk data sender_address = (Inr txn, sdk', r')"
    using assms(5) by (metis fst_conv prod_cases3)
  from build_tx_skip_simulate [OF first] assms(1) have ns: "\<not> skip_simulate sdk1" by simp
  from fin first obtain t1 where "r1 = Inr t1"
    by (cases r1) (auto simp: send_tx_transaction_def)
  with assms(2-4) fin first ns have second:
    "build_tx lib enc
       \<lparr>io_rng = r1', io_estimate_reply = io_estimate_reply (first_build io), io_now = second_now io\<rparr>
       sdk1 data sender_address
       (Some (min (max (simulated_max_gas * 2) DEFAULT_MAX_GAS_AMOUNT) MAX_GAS_UNITS_LIMIT))
       (Some (max simulated_gas_price 1)) = (Inr txn, sdk', r')"
    by (simp add: send_tx_transaction_def Let_def)
  from build_tx_Inr [OF second] show ?thesis
    by (simp add: DEFAULT_MAX_GAS_AMOUNT_def MAX_GAS_UNITS_LIMIT_def mult.commute split: if_splits)
qed

lemma demo_function_id: "function_id demo_data = ''0x1::m::f''"
  by (simp add: demo_data_def)

lemma demo_first_build:
  "build_tx demo_lib demo_enc (demo_build_io demo_rng) demo_sdk demo_data (replicate 32 0) None None
     = (Inr (demo_txn 4294967298 200000 100), demo_sdk, \<lambda>n. demo_rng (Suc (Suc n)))"
  by (simp add: build_tx_def generate_nonce_eq demo_sdk_def demo_build_io_def demo_rng_def
      sdk_fetch_gas_price_estimation_def DEFAULT_MAX_GAS_AMOUNT_def
      demo_build_simple_transaction_Inr demo_function_id)

lemma demo_second_build:
  "fst (build_tx demo_lib demo_enc
     \<lparr>io_rng = \<lambda>n. demo_rng (Suc (Suc n)), io_estimate_reply = rep, io_now = 0\<rparr>
     demo_sdk demo_data (replicate 32 0) (Some 200000) (Some 5))
     = Inr (demo_txn 12884901892 200000 5)"
  by (simp add: build_tx_def generate_nonce_eq demo_sdk_def demo_rng_def
      demo_build_simple_transaction_Inr demo_function_id)

lemma demo_send_tx_transaction:
  "fst (send_tx_transaction demo_lib demo_enc demo_send_io demo_sdk demo_data (replicate 32 0))
     = Inr (demo_txn 12884901892 200000 5)"
proof -
  have ns: "\<not> skip_simulate demo_sdk" by (simp add: demo_sdk_def)
  show ?thesis
    by (simp add: send_tx_transaction_def demo_send_io_def demo_first_build ns
        DEFAULT_MAX_GAS_AMOUNT_def MAX_GAS_UNITS_LIMIT_def demo_second_build)
qed

theorem simulated_gas_rebuild_witness:
  "\<not> skip_simulate demo_sdk
   \<and> simulation demo_send_io
       = Inr \<lparr>sim_max_gas_amount = Some (Inr 60000), sim_gas_unit_price = Some (Inr 5)\<rparr>
   \<and> fst (send_tx_transaction demo_lib demo_enc demo_send_io demo_sdk demo_data (replicate 32 0))
       = Inr (demo_txn 12884901892 200000 5)
   \<and> max_gas_amount (raw_transaction (demo_txn 12884901892 200000 5)) = 200000
   \<and> gas_unit_price (raw_transaction (demo_txn 12884901892 200000 5)) = 5"
proof -
  have a: "\<not> skip_simulate demo_sdk" by (simp add: demo_sdk_def)
  have b: "simulation demo_send_io
       = Inr \<lparr>sim_max_gas_amount = Some (Inr 60000), sim_gas_unit_price = Some (Inr 5)\<rparr>"
    by (simp add: demo_send_io_def)
  have c: "fst (send_tx_transaction demo_lib demo_enc demo_send_io demo_sdk demo_data
                  (replicate 32 0)) = Inr (demo_txn 12884901892 200000 5)"
    by (simp add: demo_send_tx_transaction)
  from simulated_gas_rebuild [OF a b _ _ c, of 60000 5] a b c show ?thesis by simp
qed

section \<open>The replay nonce\<close>

lemma nonce_halves:
  fixes hi lo :: int
  assumes "0 \<le> lo" "lo < 2 ^ 32"
  shows "push_bit 32 hi OR lo = hi * 2 ^ 32 + lo"
proof -
  have "push_bit 32 hi OR lo = concat_bit 32 lo hi"
    using assms by (simp add: concat_bit_def take_bit_int_eq_self or.commute)
  also have "\<dots> = lo + push_bit 32 hi"
    using assms by (simp add: concat_bit_eq take_bit_int_eq_self)
  finally show ?thesis by (simp add: push_bit_eq_mult)
qed

text \<open>
  Claim C3, as the code has it. One call of the build step draws exactly two 32-bit
  values. If either is zero, no nonce is produced and the build fails at once with the
  internal error, leaving the SDK object as it was: nothing is redrawn. Otherwise the
  generator returns the nonce whose high half is the first draw and whose low half is
  the second; and every envelope the build step returns carries that nonce, with both
  draws nonzero.
\<close>

theorem nonce_drawn_once:
  "(io_rng io 0 = 0 \<or> io_rng io 1 = 0 \<longrightarrow>
      build_tx lib enc io sdk data sender_address mg gp
        = (Inl NonceUnavailable, sdk, \<lambda>n. io_rng io (n + 2)))
   \<and> (io_rng io 0 \<noteq> 0 \<and> io_rng io 1 \<noteq> 0 \<longrightarrow>
        generate_random_replay_protection_nonce (io_rng io)
          = (Some (push_bit 32 (io_rng io 0) OR io_rng io 1), \<lambda>n. io_rng io (n + 2))
        \<and> (0 \<le> io_rng io 1 \<and> io_rng io 1 < 2 ^ 32 \<longrightarrow>
             push_bit 32 (io_rng io 0) OR io_rng io 1 = io_rng io 0 * 2 ^ 32 + io_rng io 1))
   \<and> (\<forall>txn. fst (build_tx lib enc io sdk data sender_address mg gp) = Inr txn \<longrightarrow>
         io_rng io 0 \<noteq> 0 \<and> io_rng io 1 \<noteq> 0 \<and>
         replay_protection_nonce (extra_config (inner_payload (payload (raw_transaction txn))))
           = Some (push_bit 32 (io_rng io 0) OR io_rng io 1))
   \<and> snd (snd (build_tx lib enc io sdk data sender_address mg gp)) = (\<lambda>n. io_rng io (n + 2))"
proof (intro conjI impI allI)
  assume "io_rng io 0 = 0 \<or> io_rng io 1 = 0"
  then show "build_tx lib enc io sdk data sender_address mg gp
        = (Inl NonceUnavailable, sdk, \<lambda>n. io_rng io (n + 2))"
    by (auto simp: build_tx_def generate_nonce_eq)
next
  assume "io_rng io 0 \<noteq> 0 \<and> io_rng io 1 \<noteq> 0"
  then show "generate_random_replay_protection_nonce (io_rng io)
          = (Some (push_bit 32 (io_rng io 0) OR io_rng io 1), \<lambda>n. io_rng io (n + 2))"
    by (simp add: generate_nonce_eq)
next
  assume "0 \<le> io_rng io 1 \<and> io_rng io 1 < 2 ^ 32"
  then show "push_bit 32 (io_rng io 0) OR io_rng io 1 = io_rng io 0 * 2 ^ 32 + io_rng io 1"
    by (simp add: nonce_halves)
next
  fix txn
  assume "fst (build_tx lib enc io sdk data sender_address mg gp) = Inr txn"
  then obtain sdk' r' where
    b: "build_tx lib enc io sdk data sender_address mg gp = (Inr txn, sdk', r')"
    by (metis fst_conv prod_cases3)
  from build_tx_Inr [OF b]
  show "io_rng io 0 \<noteq> 0" and "io_rng io 1 \<noteq> 0"
    and "replay_protection_nonce (extra_config (inner_payload (payload (raw_transaction txn))))
           = Some (push_bit 32 (io_rng io 0) OR io_rng io 1)"
    by simp_all
next
  show "snd (snd (build_tx lib enc io sdk data sender_address mg gp)) = (\<lambda>n. io_rng io (n + 2))"
    unfolding build_tx_def Let_def generate_nonce_eq
    by (auto split: if_splits option.splits prod.splits)
qed

theorem nonce_drawn_once_witness:
  "io_rng (demo_build_io zero_first_rng) 0 = 0
   \<and> fst (build_tx demo_lib demo_enc (demo_build_io zero_first_rng) demo_sdk demo_data
            (replicate 32 0) None None) = Inl NonceUnavailable
   \<and> io_rng (demo_build_io demo_rng) 0 \<noteq> 0 \<and> io_rng (demo_build_io demo_rng) 1 \<noteq> 0
   \<and> fst (generate_random_replay_protection_nonce (io_rng (demo_build_io demo_rng)))
       = Some 4294967298
   \<and> fst (build_tx demo_lib demo_enc (demo_build_io demo_rng) demo_sdk demo_data
            (replicate 32 0) None None) = Inr (demo_txn 4294967298 200000 100)
   \<and> replay_protection_nonce (extra_config (inner_payload (payload (raw_transaction
        (demo_txn 4294967298 200000 100))))) = Some 4294967298"
proof -
  have z: "io_rng (demo_build_io zero_first_rng) 0 = 0 \<or> io_rng (demo_build_io zero_first_rng) 1 = 0"
    by (simp add: demo_build_io_def zero_first_rng_def)
  have nz: "io_rng (demo_build_io demo_rng) 0 \<noteq> 0 \<and> io_rng (demo_build_io demo_rng) 1 \<noteq> 0"
    by (simp add: demo_build_io_def demo_rng_def)
  have rg: "0 \<le> io_rng (demo_build_io demo_rng) 1 \<and> io_rng (demo_build_io demo_rng) 1 < 2 ^ 32"
    by (simp add: demo_build_io_def demo_rng_def)
  have b: "fst (build_tx demo_lib demo_enc (demo_build_io demo_rng) demo_sdk demo_data
            (replicate 32 0) None None) = Inr (demo_txn 4294967298 200000 100)"
    by (simp add: demo_first_build)
  note t = nonce_drawn_once [of "demo_build_io zero_first_rng" demo_lib demo_enc demo_sdk
      demo_data "replicate 32 0" None None]
  note u = nonce_drawn_once [of "demo_build_io demo_rng" demo_lib demo_enc demo_sdk
      demo_data "replicate 32 0" None None]
  from t [THEN conjunct1, rule_format, OF z]
    u [THEN conjunct2, THEN conjunct1, rule_format, OF nz]
    u [THEN conjunct2, THEN conjunct2, THEN conjunct1, rule_format, OF b]
    nz b
  show ?thesis
    by (simp add: demo_build_io_def demo_rng_def zero_first_rng_def)
qed

text \<open>
  The claim as stated fails: with the draws 0, 5, 7, 9, ... the first pair is
  degenerate and the next pair (7, 9) would give a good nonce, yet the build step fails
  without drawing it.
\<close>

lemma demo_zero_first_build:
  "build_tx demo_lib demo_enc (demo_build_io zero_first_rng) demo_sdk demo_data
          (replicate 32 0) None None = (Inl NonceUnavailable, demo_sdk, \<lambda>n. zero_first_rng (n + 2))"
  by (simp add: build_tx_def generate_nonce_eq demo_build_io_def zero_first_rng_def)

theorem nonce_redraw_counterexample:
  "fst (build_tx demo_lib demo_enc (demo_build_io zero_first_rng) demo_sdk demo_data
          (replicate 32 0) None None) = Inl NonceUnavailable
   \<and> snd (snd (build_tx demo_lib demo_enc (demo_build_io zero_first_rng) demo_sdk demo_data
          (replicate 32 0) None None)) 0 = 7
   \<and> fst (generate_random_replay_protection_nonce
            (snd (snd (build_tx demo_lib demo_enc (demo_build_io zero_first_rng) demo_sdk
                         demo_data (replicate 32 0) None None)))) = Some 30064771081"
  by (simp add: demo_zero_first_build generate_nonce_eq zero_first_rng_def)

section \<open>The default gas ceiling\<close>

text \<open>
  Claim C4, as the code has it. Called without a gas ceiling, the transaction builder
  \<open>build_simple_transaction_sync\<close> emits max gas amount 100000, its own default. The
  pipeline's build step \<open>build_tx\<close> never leaves the ceiling out: called without one (or
  with 0) it passes 200000 to the builder, so its envelopes carry 200000.
\<close>

theorem default_gas_ceiling:
  "(\<forall>txn. build_simple_transaction_sync lib enc now sender_arg data chain gas_price abi
             with_fee_payer nonce td None ex = Inr txn
          \<longrightarrow> max_gas_amount (raw_transaction txn) = 100000)
   \<and> (\<forall>txn. fst (build_tx lib enc io sdk data sender_address None gp) = Inr txn
          \<longrightarrow> max_gas_amount (raw_transaction txn) = 200000)
   \<and> (\<forall>txn. fst (build_tx lib enc io sdk data sender_address (Some 0) gp) = Inr txn
          \<longrightarrow> max_gas_amount (raw_transaction txn) = 200000)"
proof (intro conjI impI allI)
  fix txn
  assume "build_simple_transaction_sync lib enc now sender_arg data chain gas_price abi
             with_fee_payer nonce td None ex = Inr txn"
  from build_simple_transaction_sync_Inr [OF this]
  show "max_gas_amount (raw_transaction txn) = 100000" by auto
next
  fix txn
  assume "fst (build_tx lib enc io sdk data sender_address None gp) = Inr txn"
  then obtain sdk' r' where
    b: "build_tx lib enc io sdk data sender_address None gp = (Inr txn, sdk', r')"
    by (metis fst_conv prod_cases3)
  from build_tx_Inr [OF b] show "max_gas_amount (raw_transaction txn) = 200000" by simp
next
  fix txn
  assume "fst (build_tx lib enc io sdk data sender_address (Some 0) gp) = Inr txn"
  then obtain sdk' r' where
    b: "build_tx lib enc io sdk data sender_address (Some 0) gp = (Inr txn, sdk', r')"
    by (metis fst_conv prod_cases3)
  from build_tx_Inr [OF b] show "max_gas_amount (raw_transaction txn) = 200000" by simp
qed

theorem default_gas_ceiling_witness:
  "build_simple_transaction_sync demo_lib demo_enc 0 (Inl ''0xA'') demo_data 208 100 demo_abi
     True 258 None None None = Inr (demo_txn 258 100000 100)
   \<and> max_gas_amount (raw_transaction (demo_txn 258 100000 100)) = 100000
   \<and> fst (build_tx demo_lib demo_enc (demo_build_io demo_rng) demo_sdk demo_data
            (replicate 32 0) None None) = Inr (demo_txn 4294967298 200000 100)
   \<and> max_gas_amount (raw_transaction (demo_txn 4294967298 200000 100)) = 200000"
proof -
  have a: "build_simple_transaction_sync demo_lib demo_enc 0 (Inl ''0xA'') demo_data 208 100
             demo_abi True 258 None None None = Inr (demo_txn 258 100000 100)"
    using demo_build_simple_transaction [of 100 258 None] by simp
  have b: "fst (build_tx demo_lib demo_enc (demo_build_io demo_rng) demo_sdk demo_data
            (replicate 32 0) None None) = Inr (demo_txn 4294967298 200000 100)"
    by (simp add: demo_first_build)
  note t = default_gas_ceiling [of demo_lib demo_enc 0 "Inl ''0xA''" demo_data 208 100 demo_abi
      True 258 None None "demo_build_io demo_rng" demo_sdk "replicate 32 0" None]
  from t [THEN conjunct1, rule_format, OF a] t [THEN conjunct2, THEN conjunct1, rule_format, OF b]
    a b
  show ?thesis by simp
qed

text \<open>
  The claim as stated fails: the builder, called without a ceiling, emits 100000.
\<close>

theorem default_gas_ceiling_counterexample:
  "build_simple_transaction_sync demo_lib demo_enc 0 (Inl ''0xA'') demo_data 208 100 demo_abi
     True 258 None None None = Inr (demo_txn 258 100000 100)
   \<and> max_gas_amount (raw_transaction (demo_txn 258 100000 100)) \<noteq> 200000"
  using demo_build_simple_transaction [of 100 258 None] by (simp add: demo_txn_def)

section \<open>Polling a transaction by hash\<close>

lemma poll_loop_continue:
  "no_terminal_status response \<Longrightarrow>
     poll_loop tx_hash timeout_secs start_time ((response, now) # rest) =
       (if now - start_time > timeout_secs
        then Some (Inl (TimeoutError tx_hash timeout_secs))
        else poll_loop tx_hash timeout_secs start_time rest)"
  by (auto simp: no_terminal_status_def Let_def split: poll_response.splits)

lemma poll_loop_times_out:
  assumes "\<forall>(response, now) \<in> set rounds. no_terminal_status response"
    and "\<exists>(response, now) \<in> set rounds. now - start_time > timeout_secs"
  shows "poll_loop tx_hash timeout_secs start_time rounds
           = Some (Inl (TimeoutError tx_hash timeout_secs))"
  using assms
proof (induction rounds)
  case Nil
  then show ?case by simp
next
  case (Cons r rounds)
  obtain response now where r: "r = (response, now)" by (cases r)
  from Cons.prems(1) have nt: "no_terminal_status response" by (simp add: r)
  show ?case
  proof (cases "now - start_time > timeout_secs")
    case True
    then show ?thesis by (simp only: r poll_loop_continue [OF nt] if_True)
  next
    case False
    with Cons.prems(2) have "\<exists>(response, now) \<in> set rounds. now - start_time > timeout_secs"
      by (auto simp: r)
    with Cons.IH Cons.prems(1)
    have "poll_loop tx_hash timeout_secs start_time rounds
            = Some (Inl (TimeoutError tx_hash timeout_secs))"
      by simp
    with False show ?thesis by (simp only: r poll_loop_continue [OF nt] if_False)
  qed
qed

lemma poll_loop_still_polling:
  assumes "\<forall>(response, now) \<in> set rounds.
             no_terminal_status response \<and> \<not> now - start_time > timeout_secs"
  shows "poll_loop tx_hash timeout_secs start_time rounds = None"
  using assms
proof (induction rounds)
  case Nil
  then show ?case by simp
next
  case (Cons r rounds)
  obtain response now where r: "r = (response, now)" by (cases r)
  from Cons.prems have nt: "no_terminal_status response"
    and le: "\<not> now - start_time > timeout_secs" by (simp_all add: r)
  from Cons have "poll_loop tx_hash timeout_secs start_time rounds = None" by simp
  with le show ?case by (simp only: r poll_loop_continue [OF nt] if_False)
qed

text \<open>
  Claim C10. A non-success HTTP response is not raised: the round only checks the clock
  and polls again. So for every sequence of rounds without a terminal status, in which
  the clock passes the bound at some round, the wait ends with exactly the timeout error
  that names the hash and the bound, also when every response is an HTTP failure; and
  while the clock has not passed the bound, nothing is raised and the loop keeps polling.
\<close>

theorem poll_failure_then_timeout:
  "poll_loop tx_hash timeout_secs start_time ((PollFailure code body, now) # rest) =
     (if now - start_time > timeout_secs
      then Some (Inl (TimeoutError tx_hash timeout_secs))
      else poll_loop tx_hash timeout_secs start_time rest)
   \<and> ((\<forall>(response, now) \<in> set rounds. no_terminal_status response)
        \<and> (\<exists>(response, now) \<in> set rounds. now - start_time > timeout_secs) \<longrightarrow>
        poll_loop tx_hash timeout_secs start_time rounds
          = Some (Inl (TimeoutError tx_hash timeout_secs)))
   \<and> ((\<forall>(response, now) \<in> set rounds.
           no_terminal_status response \<and> \<not> now - start_time > timeout_secs) \<longrightarrow>
        poll_loop tx_hash timeout_secs start_time rounds = None)"
proof (intro conjI impI)
  have "no_terminal_status (PollFailure code body)"
    by (simp add: no_terminal_status_def)
  then show "poll_loop tx_hash timeout_secs start_time ((PollFailure code body, now) # rest) =
     (if now - start_time > timeout_secs
      then Some (Inl (TimeoutError tx_hash timeout_secs))
      else poll_loop tx_hash timeout_secs start_time rest)"
    by (rule poll_loop_continue)
next
  assume "(\<forall>(response, now) \<in> set rounds. no_terminal_status response)
        \<and> (\<exists>(response, now) \<in> set rounds. now - start_time > timeout_secs)"
  then show "poll_loop tx_hash timeout_secs start_time rounds
          = Some (Inl (TimeoutError tx_hash timeout_secs))"
    using poll_loop_times_out by blast
next
  assume "\<forall>(response, now) \<in> set rounds.
           no_terminal_status response \<and> \<not> now - start_time > timeout_secs"
  then show "poll_loop tx_hash timeout_secs start_time rounds = None"
    by (rule poll_loop_still_polling)
qed

theorem poll_failure_then_timeout_witness:
  "list_all (\<lambda>(response, now). no_terminal_status response) failing_rounds
   \<and> list_ex (\<lambda>(response, now). now - 0 > 30) failing_rounds
   \<and> wait_for_transaction ''0xabc'' None 0 failing_rounds = Some (Inl (TimeoutError ''0xabc'' 30))
   \<and> list_all (\<lambda>(response, now). no_terminal_status response \<and> \<not> now - 0 > 30)
        (take 2 failing_rounds)
   \<and> wait_for_transaction ''0xabc'' None 0 (take 2 failing_rounds) = None"
proof -
  have a: "(\<forall>(response, now) \<in> set failing_rounds. no_terminal_status response)
   \<and> (\<exists>(response, now) \<in> set failing_rounds. now - 0 > 30)"
    by (simp add: failing_rounds_def no_terminal_status_def)
  have b: "\<forall>(response, now) \<in> set (take 2 failing_rounds).
          no_terminal_status response \<and> \<not> now - 0 > 30"
    by (simp add: failing_rounds_def no_terminal_status_def)
  note t = poll_failure_then_timeout [of "''0xabc''" 30 0 503 "''busy''" 1 "[]" failing_rounds]
  note u = poll_failure_then_timeout [of "''0xabc''" 30 0 503 "''busy''" 1 "[]"
      "take 2 failing_rounds"]
  from t [THEN conjunct2, THEN conjunct1, THEN mp, OF a]
    u [THEN conjunct2, THEN conjunct2, THEN mp, OF b] a b
  show ?thesis by (simp add: wait_for_transaction_def list_all_iff list_ex_iff)
qed

section \<open>The fee-payer relay's URL\<close>

text \<open>
  Claim C6, as the code has it. The hardcoded URLs are fallbacks of the bearer-token
  relay, and they come first: with an API key configured the POST goes to the testnet
  URL on testnet, else to the netna URL on chain id 208, else to the configured relay
  URL, and fails with a configuration error if there is none. Without an API key the
  legacy relay is used exactly when a relay URL is configured, and that URL is the one
  posted to; with neither key nor URL the submission fails with the configuration error
  on every network.
\<close>

theorem legacy_relay_url:
  "(\<not> truthy (gas_station_api_key config) \<and> gas_station_url config = Some u \<and> u \<noteq> [] \<longrightarrow>
      submit_fee_paid_transaction config = Inr (LegacyPost (u @ ''/transactions'')))
   \<and> (\<not> truthy (gas_station_api_key config) \<and> \<not> truthy (gas_station_url config) \<longrightarrow>
      submit_fee_paid_transaction config = Inl FeePayerNotConfigured)
   \<and> (gas_station_api_key config = Some k \<and> k \<noteq> [] \<longrightarrow>
      submit_fee_paid_transaction config =
        (if network config = TESTNET
         then Inr (BearerPost ''https://api.testnet.aptoslabs.com/gs/v1/api/transaction/signAndSubmit''
                     (''Bearer '' @ k))
         else if cfg_chain_id config = Some 208
         then Inr (BearerPost ''https://api.netna.aptoslabs.com/gs/v1/api/transaction/signAndSubmit''
                     (''Bearer '' @ k))
         else (case gas_station_url config of
                 None \<Rightarrow> Inl GasStationUrlRequired
               | Some v \<Rightarrow>
                   if v = [] then Inl GasStationUrlRequired
                   else Inr (BearerPost (v @ ''/api/transaction/signAndSubmit'') (''Bearer '' @ k)))))"
  by (auto simp: submit_fee_paid_transaction_def submit_via_legacy_fee_payer_def
      submit_via_gas_station_api_def get_default_gas_station_url_def truthy_def
      split: option.splits)

theorem legacy_relay_url_witness:
  "\<not> truthy (gas_station_api_key local_config)
   \<and> gas_station_url local_config = Some ''http://localhost:8085''
   \<and> submit_fee_paid_transaction local_config = Inr (LegacyPost ''http://localhost:8085/transactions'')
   \<and> \<not> truthy (gas_station_url netna_unconfigured)
   \<and> submit_fee_paid_transaction netna_unconfigured = Inl FeePayerNotConfigured
   \<and> gas_station_api_key testnet_with_key = Some ''k''
   \<and> submit_fee_paid_transaction testnet_with_key =
       Inr (BearerPost ''https://api.testnet.aptoslabs.com/gs/v1/api/transaction/signAndSubmit''
              ''Bearer k'')"
proof -
  have a: "\<not> truthy (gas_station_api_key local_config)
           \<and> gas_station_url local_config = Some ''http://localhost:8085''
           \<and> ''http://localhost:8085'' \<noteq> []"
    by (simp add: local_config_def truthy_def)
  have b: "\<not> truthy (gas_station_api_key netna_unconfigured)
           \<and> \<not> truthy (gas_station_url netna_unconfigured)"
    by (simp add: netna_unconfigured_def truthy_def)
  have c: "gas_station_api_key testnet_with_key = Some ''k'' \<and> ''k'' \<noteq> []"
    by (simp add: testnet_with_key_def)
  have n: "network testnet_with_key = TESTNET" by (simp add: testnet_with_key_def)
  from legacy_relay_url [of local_config "''http://localhost:8085''" "''k''",
      THEN conjunct1, rule_format, OF a]
    legacy_relay_url [of netna_unconfigured "''u''" "''k''",
      THEN conjunct2, THEN conjunct1, rule_format, OF b]
    legacy_relay_url [of testnet_with_key "''u''" "''k''",
      THEN conjunct2, THEN conjunct2, rule_format, OF c]
    a b c n
  show ?thesis by simp
qed

text \<open>
  The claim as stated fails: on testnet, and on chain 208, with no relay URL (and no API
  key) the submission does not fall back to a default URL; it fails.
\<close>

theorem legacy_relay_fallback_counterexample:
  "gas_station_url testnet_unconfigured = None
   \<and> network testnet_unconfigured = TESTNET
   \<and> submit_fee_paid_transaction testnet_unconfigured = Inl FeePayerNotConfigured
   \<and> gas_station_url netna_unconfigured = None
   \<and> cfg_chain_id netna_unconfigured = Some 208
   \<and> submit_fee_paid_transaction netna_unconfigured = Inl FeePayerNotConfigured"
  by (simp add: submit_fee_paid_transaction_def testnet_unconfigured_def netna_unconfigured_def
      truthy_def)

section \<open>Unsubscribing twice\<close>

lemma ws_inv_init: "ws_inv ws_init"
  by (simp add: ws_inv_def ws_init_def)

lemma subscribe_fields:
  "subscriptions (snd (subscribe topic s)) =
     (subscriptions s)(topic \<mapsto> insert (next_listener s)
        (case subscriptions s topic of None \<Rightarrow> {} | Some ls \<Rightarrow> ls))"
  "next_listener (snd (subscribe topic s)) = Suc (next_listener s)"
  "fst (subscribe topic s) = (topic, next_listener s)"
  by (simp_all add: subscribe_def Let_def)

lemma unsubscribe_topic_fields:
  "subscriptions (unsubscribe_topic topic s) = (subscriptions s)(topic := None)"
  "next_listener (unsubscribe_topic topic s) = next_listener s"
  by (auto simp: unsubscribe_topic_def Let_def fun_upd_idem_iff domIff)

lemma unsubscribe_listener_fields:
  "subscriptions (unsubscribe_listener topic l s) =
     (case subscriptions s topic of
        None \<Rightarrow> subscriptions s
      | Some ls \<Rightarrow> if ls - {l} = {} then (subscriptions s)(topic := None)
                   else (subscriptions s)(topic \<mapsto> ls - {l}))"
  "next_listener (unsubscribe_listener topic l s) = next_listener s"
  by (auto simp: unsubscribe_listener_def Let_def unsubscribe_topic_fields split: option.splits)

lemma ws_step_inv:
  assumes "ws_step s s'" and "ws_inv s"
  shows "ws_inv s'"
  using assms
proof (induction rule: ws_step.induct)
  case (step_subscribe s topic)
  then show ?case
    by (auto simp: ws_inv_def subscribe_fields less_Suc_eq split: option.splits if_splits)
next
  case (step_unsubscribe s topic listener)
  then show ?case
    by (auto simp: ws_inv_def unsubscribe_listener_fields split: option.splits if_splits)
next
  case (step_delayed_close s)
  then show ?case by (auto simp: ws_inv_def delayed_close_def)
next
  case (step_close s)
  then show ?case by (simp add: ws_inv_def close_def)
next
  case (step_connection s b c ts)
  then show ?case by (simp add: ws_inv_def)
qed

lemma ws_steps_inv: "ws_step\<^sup>*\<^sup>* s s' \<Longrightarrow> ws_inv s \<Longrightarrow> ws_inv s'"
  by (induction rule: rtranclp_induct) (auto intro: ws_step_inv)

lemma reachable_inv: "reachable s \<Longrightarrow> ws_inv s"
  using ws_steps_inv [OF _ ws_inv_init] by (simp add: reachable_def)

lemma ws_step_absent:
  assumes "ws_step s s'" and "absent topic l s"
  shows "absent topic l s'"
  using assms
proof (induction rule: ws_step.induct)
  case (step_subscribe s t)
  then show ?case
    by (auto simp: absent_def subscribe_fields split: option.splits if_splits)
next
  case (step_unsubscribe s t listener)
  then show ?case
    by (auto simp: absent_def unsubscribe_listener_fields split: option.splits if_splits)
next
  case (step_delayed_close s)
  then show ?case by (auto simp: absent_def delayed_close_def)
next
  case (step_close s)
  then show ?case by (simp add: absent_def close_def)
next
  case (step_connection s b c ts)
  then show ?case by (simp add: absent_def)
qed

lemma ws_steps_absent: "ws_step\<^sup>*\<^sup>* s s' \<Longrightarrow> absent topic l s \<Longrightarrow> absent topic l s'"
  by (induction rule: rtranclp_induct) (auto intro: ws_step_absent)

lemma ws_steps_next_listener: "ws_step\<^sup>*\<^sup>* s s' \<Longrightarrow> next_listener s \<le> next_listener s'"
proof (induction rule: rtranclp_induct)
  case base
  then show ?case by simp
next
  case (step y z)
  from step.hyps(2) have "next_listener y \<le> next_listener z"
    by (induction rule: ws_step.induct)
      (simp_all add: subscribe_fields unsubscribe_listener_fields delayed_close_def close_def)
  with step.IH show ?case by simp
qed

lemma unsubscribe_absent_noop:
  assumes "ws_inv s" and "case subscriptions s topic of None \<Rightarrow> True | Some ls \<Rightarrow> l \<notin> ls"
  shows "unsubscribe_listener topic l s = s"
proof (cases "subscriptions s topic")
  case None
  then show ?thesis by (simp add: unsubscribe_listener_def)
next
  case (Some ls)
  with assms have "l \<notin> ls" and "ls \<noteq> {}" by (auto simp: ws_inv_def)
  then have "ls - {l} = ls" and "ls - {l} \<noteq> {}" by auto
  moreover have "(subscriptions s)(topic \<mapsto> ls) = subscriptions s"
    using Some by (simp add: map_upd_triv)
  ultimately show ?thesis
    using Some by (simp add: unsubscribe_listener_def)
qed

lemma unsubscribe_listener_removes:
  "case subscriptions (unsubscribe_listener topic l s) topic of
     None \<Rightarrow> True | Some ls \<Rightarrow> l \<notin> ls"
  by (auto simp: unsubscribe_listener_fields split: option.splits)

lemma fun_upd_None_empty_iff: "(m(t := None) = (\<lambda>x. None)) \<longleftrightarrow> dom m \<subseteq> {t}"
  by (auto simp: fun_eq_iff domIff split: if_splits)

lemma unsubscribe_topic_present:
  assumes "subscriptions s topic = Some ls"
  shows "unsubscribe_topic topic s =
     s\<lparr>subscriptions := (subscriptions s)(topic := None),
       close_timer_task := (if dom ((subscriptions s)(topic := None)) = {} then True
                            else close_timer_task s),
       tasks := tasks s
         @ (if ws_open s then [SendTask (Unsubscribe topic)] else [])
         @ (if dom ((subscriptions s)(topic := None)) = {} then [DelayedCloseTask] else [])\<rparr>"
proof -
  from assms have d: "topic \<in> dom (subscriptions s)" by auto
  show ?thesis
  proof (cases "dom ((subscriptions s)(topic := None)) = {}")
    case True
    with d show ?thesis
      by (cases "ws_open s")
        (simp_all add: unsubscribe_topic_def Let_def fun_upd_None_empty_iff)
  next
    case False
    with d show ?thesis
      by (cases "ws_open s")
        (simp_all add: unsubscribe_topic_def Let_def fun_upd_None_empty_iff)
  qed
qed

lemma unsubscribe_listener_first:
  "unsubscribe_listener topic l s =
     (case subscriptions s topic of
        None \<Rightarrow> s
      | Some ls \<Rightarrow>
          if ls - {l} = {}
          then s\<lparr>subscriptions := (subscriptions s)(topic := None),
                 close_timer_task := (if dom ((subscriptions s)(topic := None)) = {} then True
                                      else close_timer_task s),
                 tasks := tasks s
                   @ (if ws_open s then [SendTask (Unsubscribe topic)] else [])
                   @ (if dom ((subscriptions s)(topic := None)) = {} then [DelayedCloseTask]
                      else [])\<rparr>
          else s\<lparr>subscriptions := (subscriptions s)(topic \<mapsto> ls - {l})\<rparr>)"
proof (cases "subscriptions s topic")
  case None
  then show ?thesis by (simp add: unsubscribe_listener_def)
next
  case (Some ls)
  show ?thesis
  proof (cases "ls - {l} = {}")
    case True
    have p: "subscriptions (s\<lparr>subscriptions := (subscriptions s)(topic \<mapsto> ls - {l})\<rparr>) topic
            = Some (ls - {l})"
      by simp
    have "unsubscribe_listener topic l s =
            unsubscribe_topic topic (s\<lparr>subscriptions := (subscriptions s)(topic \<mapsto> ls - {l})\<rparr>)"
      using Some True by (simp add: unsubscribe_listener_def Let_def)
    also have "\<dots> =
        s\<lparr>subscriptions := (subscriptions s)(topic := None),
          close_timer_task := (if dom ((subscriptions s)(topic := None)) = {} then True
                               else close_timer_task s),
          tasks := tasks s
            @ (if ws_open s then [SendTask (Unsubscribe topic)] else [])
            @ (if dom ((subscriptions s)(topic := None)) = {} then [DelayedCloseTask]
               else [])\<rparr>"
      by (subst unsubscribe_topic_present [OF p]) simp
    finally show ?thesis using Some True by simp
  next
    case False
    with Some show ?thesis by (simp add: unsubscribe_listener_def Let_def)
  qed
qed

text \<open>
  Claim C8, as the code has it. In every reachable state, calling the closure again
  right after the first call changes nothing. More generally, take the handle \<open>h\<close> that
  \<open>subscribe\<close> returned in a reachable state, let the multiplexer run, call
  \<open>unsubscribe h\<close>, and let it run again: a second \<open>unsubscribe h\<close> then returns the state
  as it is, so no task is created (no unsubscribe message), the topic map is untouched,
  and no statement of it can raise. The first call removes exactly this listener from
  its topic's set; if the set becomes empty the topic is dropped, and one unsubscribe
  message is scheduled only when a connection is open (\<open>self._ws is not None\<close>): with
  the socket closed the topic is dropped without a message.
\<close>

theorem unsubscribe_twice_is_noop:
  assumes "reachable s0"
    and "subscribe topic s0 = (h, s1)"
    and "ws_step\<^sup>*\<^sup>* s1 s2"
    and "ws_step\<^sup>*\<^sup>* (unsubscribe h s2) s3"
  shows "unsubscribe h s3 = s3
    \<and> unsubscribe h (unsubscribe h s2) = unsubscribe h s2
    \<and> unsubscribe h s2 =
        (case subscriptions s2 topic of
           None \<Rightarrow> s2
         | Some ls \<Rightarrow>
             if ls - {snd h} = {}
             then s2\<lparr>subscriptions := (subscriptions s2)(topic := None),
                     close_timer_task := (if dom ((subscriptions s2)(topic := None)) = {} then True
                                          else close_timer_task s2),
                     tasks := tasks s2
                       @ (if ws_open s2 then [SendTask (Unsubscribe topic)] else [])
                       @ (if dom ((subscriptions s2)(topic := None)) = {} then [DelayedCloseTask]
                          else [])\<rparr>
             else s2\<lparr>subscriptions := (subscriptions s2)(topic \<mapsto> ls - {snd h})\<rparr>)"
proof -
  define l where "l = next_listener s0"
  from assms(2) have h: "h = (topic, l)"
    using subscribe_fields(3) [of topic s0] by (simp add: l_def)
  have u: "unsubscribe h = unsubscribe_listener topic l"
    by (simp add: fun_eq_iff unsubscribe_def h)
  from assms(2) have s1: "s1 = snd (subscribe topic s0)" by simp
  have "ws_step s0 s1" unfolding s1 by (rule step_subscribe)
  with assms(1) have inv1: "ws_inv s1" by (auto intro: ws_step_inv reachable_inv)
  have inv2: "ws_inv s2" using assms(3) inv1 by (rule ws_steps_inv)
  have "ws_step s2 (unsubscribe_listener topic l s2)" by (rule step_unsubscribe)
  then have inv2': "ws_inv (unsubscribe_listener topic l s2)" using inv2 by (rule ws_step_inv)
  have st: "ws_step\<^sup>*\<^sup>* (unsubscribe_listener topic l s2) s3"
    using assms(4) by (simp add: u)
  have inv3: "ws_inv s3" using st inv2' by (rule ws_steps_inv)
  have "l < next_listener s1" by (simp add: s1 subscribe_fields l_def)
  also have "\<dots> \<le> next_listener s2" using assms(3) by (rule ws_steps_next_listener)
  finally have lt: "l < next_listener (unsubscribe_listener topic l s2)"
    by (simp add: unsubscribe_listener_fields)
  have ab: "absent topic l (unsubscribe_listener topic l s2)"
    unfolding absent_def
    using lt unsubscribe_listener_removes [where topic = topic and l = l and s = s2]
    by blast
  have ab3: "absent topic l s3" using st ab by (rule ws_steps_absent)
  have a: "unsubscribe_listener topic l s3 = s3"
    using inv3 ab3 [unfolded absent_def, THEN conjunct2] by (rule unsubscribe_absent_noop)
  have b: "unsubscribe_listener topic l (unsubscribe_listener topic l s2)
             = unsubscribe_listener topic l s2"
    using inv2' ab [unfolded absent_def, THEN conjunct2] by (rule unsubscribe_absent_noop)
  note c = unsubscribe_listener_first [where topic = topic and l = l and s = s2]
  have sh: "snd h = l" by (simp add: h)
  show ?thesis
    unfolding u sh using a b c by (intro conjI)
qed

lemma demo_subscribe: "subscribe ''prices'' ws_init = ((''prices'', 0), ws_subscribed)"
  by (simp add: subscribe_def ws_init_def ws_subscribed_def)

theorem unsubscribe_twice_is_noop_witness:
  "reachable ws_init
   \<and> subscribe ''prices'' ws_init = ((''prices'', 0), ws_subscribed)
   \<and> ws_step\<^sup>*\<^sup>* ws_subscribed ws_connected
   \<and> unsubscribe (''prices'', 0) (unsubscribe (''prices'', 0) ws_connected)
       = unsubscribe (''prices'', 0) ws_connected
   \<and> subscriptions (unsubscribe (''prices'', 0) ws_connected) ''prices'' = None
   \<and> tasks (unsubscribe (''prices'', 0) ws_connected)
       = [OpenTask, SendTask (Unsubscribe ''prices''), DelayedCloseTask]"
proof -
  have r: "reachable ws_init" by (simp add: reachable_def)
  have "ws_step ws_subscribed ws_connected"
    unfolding ws_connected_def by (rule step_connection)
  then have c: "ws_step\<^sup>*\<^sup>* ws_subscribed ws_connected" by (rule r_into_rtranclp)
  have e: "ws_step\<^sup>*\<^sup>* (unsubscribe (''prices'', 0) ws_connected)
             (unsubscribe (''prices'', 0) ws_connected)"
    by (rule rtranclp.rtrancl_refl)
  have sub: "subscriptions ws_connected ''prices'' = Some {0}"
    by (simp add: ws_connected_def ws_subscribed_def)
  have d: "dom (subscriptions ws_connected) \<subseteq> {''prices''}"
    by (simp add: ws_connected_def ws_subscribed_def)
  have o: "ws_open ws_connected" "tasks ws_connected = [OpenTask]"
    by (simp_all add: ws_connected_def ws_subscribed_def)
  note t = unsubscribe_twice_is_noop [OF r demo_subscribe c e]
  from t [THEN conjunct2, THEN conjunct1] t [THEN conjunct2, THEN conjunct2] r c
  show ?thesis
    by (simp add: demo_subscribe sub d o)
qed

text \<open>
  The claim as stated fails in its account of the first call: right after \<open>subscribe\<close>
  on a fresh multiplexer the socket is not open yet; the first \<open>unsubscribe\<close> empties the
  topic's listener set and drops the topic, but no unsubscribe message is sent.
\<close>

theorem unsubscribe_closed_socket_counterexample:
  "reachable ws_subscribed
   \<and> \<not> ws_open ws_subscribed
   \<and> subscriptions ws_subscribed ''prices'' = Some {0}
   \<and> subscriptions (unsubscribe (''prices'', 0) ws_subscribed) ''prices'' = None
   \<and> tasks (unsubscribe (''prices'', 0) ws_subscribed) = [OpenTask, DelayedCloseTask]
   \<and> SendTask (Unsubscribe ''prices'') \<notin> set (tasks (unsubscribe (''prices'', 0) ws_subscribed))"
proof -
  have "ws_step ws_init (snd (subscribe ''prices'' ws_init))" by (rule step_subscribe)
  then have "ws_step\<^sup>*\<^sup>* ws_init ws_subscribed"
    by (simp add: demo_subscribe r_into_rtranclp)
  then have r: "reachable ws_subscribed" by (simp add: reachable_def)
  have sub: "subscriptions ws_subscribed ''prices'' = Some {0}"
    and cl: "\<not> ws_open ws_subscribed"
    and ts: "tasks ws_subscribed = [OpenTask]"
    and d: "dom (subscriptions ws_subscribed) \<subseteq> {''prices''}"
    by (simp_all add: ws_subscribed_def)
  have u: "unsubscribe (''prices'', 0) ws_subscribed =
             ws_subscribed\<lparr>subscriptions := (subscriptions ws_subscribed)(''prices'' := None),
                            close_timer_task := True,
                            tasks := [OpenTask, DelayedCloseTask]\<rparr>"
    using unsubscribe_listener_first [where topic = "''prices''" and l = 0 and s = ws_subscribed]
    by (simp add: unsubscribe_def sub cl ts d)
  show ?thesis using r sub cl by (simp add: u)
qed

section \<open>Control acknowledgements on the WebSocket\<close>

text \<open>
  Claim C5, as the code has it. A message that decodes to a JSON object with a string
  \<open>topic\<close> and a \<open>success\<close> key is a control acknowledgement: the parser returns
  nothing, and the receive loop goes on to the next frame without calling a listener and
  without an error. The \<open>success\<close> key is looked at only after the topic check: a
  message with \<open>success\<close> and no string \<open>topic\<close> raises the missing-topic parse error,
  which ends the receive loop.
\<close>

theorem success_message_discarded:
  assumes "json_decode py data = Some doc"
    and "revive (int_of_str py) doc = Inr (JObj d)"
    and "dict_has d ''success''"
  shows "((\<exists>topic. dict_get d ''topic'' = Some (JStr topic)) \<longrightarrow>
            parse_message py data = Inr None
            \<and> handle_frame py subs (TextFrame data) = Inr None
            \<and> receive_loop py ((subs, TextFrame data) # rest) = receive_loop py rest)
       \<and> ((\<forall>topic. dict_get d ''topic'' \<noteq> Some (JStr topic)) \<longrightarrow>
            parse_message py data = Inl (MissingTopicField data)
            \<and> handle_frame py subs (TextFrame data) = Inl (MissingTopicField data)
            \<and> receive_loop py ((subs, TextFrame data) # rest)
                 = [LoopFailed (MissingTopicField data)])"
proof (intro conjI impI)
  assume "\<exists>topic. dict_get d ''topic'' = Some (JStr topic)"
  then obtain topic where t: "dict_get d ''topic'' = Some (JStr topic)" by blast
  with assms show p: "parse_message py data = Inr None"
    by (simp add: parse_message_def)
  then show h: "handle_frame py subs (TextFrame data) = Inr None"
    by (simp add: handle_frame_def)
  then show "receive_loop py ((subs, TextFrame data) # rest) = receive_loop py rest"
    by simp
next
  assume n: "\<forall>topic. dict_get d ''topic'' \<noteq> Some (JStr topic)"
  with assms show p: "parse_message py data = Inl (MissingTopicField data)"
    by (auto simp: parse_message_def split: option.splits json.splits)
  then show h: "handle_frame py subs (TextFrame data) = Inl (MissingTopicField data)"
    by (simp add: handle_frame_def)
  then show "receive_loop py ((subs, TextFrame data) # rest)
                 = [LoopFailed (MissingTopicField data)]"
    by simp
qed

lemma ack_texts_differ: "ack_without_topic \<noteq> ack_with_topic"
  by (simp add: ack_without_topic_def ack_with_topic_def)

lemma demo_decode_with_topic:
  "json_decode demo_py ack_with_topic
     = Some (JObj [(''topic'', JStr ''prices''), (''success'', JBool True)])"
  by (simp add: demo_py_def)

lemma demo_decode_without_topic:
  "json_decode demo_py ack_without_topic = Some (JObj [(''success'', JBool True)])"
  by (simp add: demo_py_def ack_texts_differ)

lemma demo_revive_with_topic:
  "revive (int_of_str demo_py) (JObj [(''topic'', JStr ''prices''), (''success'', JBool True)])
     = Inr (JObj [(''topic'', JStr ''prices''), (''success'', JBool True)])"
  by (simp add: bigint_reviver_def dict_get_def)

lemma demo_revive_without_topic:
  "revive (int_of_str demo_py) (JObj [(''success'', JBool True)])
     = Inr (JObj [(''success'', JBool True)])"
  by (simp add: bigint_reviver_def dict_get_def)

lemma demo_parse_without_topic:
  "parse_message demo_py ack_without_topic = Inl (MissingTopicField ack_without_topic)"
  by (simp add: parse_message_def demo_decode_without_topic bigint_reviver_def dict_get_def)

theorem success_message_discarded_witness:
  "dict_has [(''topic'', JStr ''prices''), (''success'', JBool True)] ''success''
   \<and> dict_get [(''topic'', JStr ''prices''), (''success'', JBool True)] ''topic''
        = Some (JStr ''prices'')
   \<and> parse_message demo_py ack_with_topic = Inr None
   \<and> receive_loop demo_py [(demo_subs, TextFrame ack_with_topic)] = []
   \<and> dict_has [(''success'', JBool True)] ''success''
   \<and> dict_get [(''success'', JBool True)] ''topic'' = None
   \<and> parse_message demo_py ack_without_topic = Inl (MissingTopicField ack_without_topic)"
proof -
  have s1: "dict_has [(''topic'', JStr ''prices''), (''success'', JBool True)] ''success''"
    by (simp add: dict_has_def)
  have t1: "\<exists>topic. dict_get [(''topic'', JStr ''prices''), (''success'', JBool True)] ''topic''
              = Some (JStr topic)"
    by (simp add: dict_get_def)
  have s2: "dict_has [(''success'', JBool True)] ''success''"
    by (simp add: dict_has_def)
  have t2: "\<forall>topic. dict_get [(''success'', JBool True)] ''topic'' \<noteq> Some (JStr topic)"
    by (simp add: dict_get_def)
  note a = success_message_discarded [OF demo_decode_with_topic demo_revive_with_topic s1,
      of demo_subs "[]", THEN conjunct1, THEN mp, OF t1]
  note b = success_message_discarded [OF demo_decode_without_topic demo_revive_without_topic s2,
      of demo_subs "[]", THEN conjunct2, THEN mp, OF t2]
  from a b s1 s2 show ?thesis
    by (simp add: dict_get_def)
qed

text \<open>
  The claim as stated fails: the acknowledgement \<open>{"success": true}\<close>, which carries no
  topic, is not discarded. The parser raises, and the receive loop ends with that error
  although a further frame was waiting.
\<close>

theorem success_without_topic_counterexample:
  "json_decode demo_py ack_without_topic = Some (JObj [(''success'', JBool True)])
   \<and> dict_has [(''success'', JBool True)] ''success''
   \<and> parse_message demo_py ack_without_topic = Inl (MissingTopicField ack_without_topic)
   \<and> receive_loop demo_py
        [(demo_subs, TextFrame ack_without_topic), (demo_subs, TextFrame ack_with_topic)]
        = [LoopFailed (MissingTopicField ack_without_topic)]"
  by (simp add: demo_decode_without_topic dict_has_def demo_parse_without_topic handle_frame_def)

section \<open>Initialising the gas price manager\<close>

lemma fetch_and_set_failure:
  assumes "fst (fetch_and_set_gas_price reply now s) = Inl e"
  shows "snd (fetch_and_set_gas_price reply now s)
           = (if is_Exception e
              then s\<lparr>gpm_log := gpm_log s @ [LogError ''Failed to fetch gas price'' e]\<rparr>
              else s)"
  using assms
  by (auto simp: fetch_and_set_gas_price_def is_Exception_def split: sum.splits if_splits)

lemma fetch_and_set_success:
  assumes "fst (fetch_and_set_gas_price reply now s) = Inr g"
  shows "snd (fetch_and_set_gas_price reply now s)
           = s\<lparr>gpm_gas_price := Some \<lparr>gas_estimate = g, timestamp = now\<rparr>\<rparr>"
  using assms
  by (auto simp: fetch_and_set_gas_price_def split: sum.splits if_splits)

lemma fetch_and_set_independent:
  "gpm_multiplier s' = gpm_multiplier s \<Longrightarrow>
     fst (fetch_and_set_gas_price reply now s') = fst (fetch_and_set_gas_price reply now s)"
  by (auto simp: fetch_and_set_gas_price_def split: sum.splits if_splits)

lemma initialize_failure:
  assumes "\<not> gpm_is_initialized s" and "fst (fetch_and_set_gas_price reply now s) = Inl e"
    and "is_Exception e"
  shows "GasPriceManager_initialize reply now s =
           (Inr (), s\<lparr>gpm_log := gpm_log s @ [LogError ''Failed to fetch gas price'' e,
                                              LogError ''Failed to initialize gas price manager'' e]\<rparr>)"
    and "GasPriceManagerSync_initialize reply now ts s =
           (Inr (), s\<lparr>gpm_log := gpm_log s @ [LogError ''Failed to fetch gas price'' e,
                                              LogError ''Failed to initialize gas price manager'' e]\<rparr>)"
  using assms fetch_and_set_failure [OF assms(2)]
  by (auto simp: GasPriceManager_initialize_def GasPriceManagerSync_initialize_def
      split: prod.splits sum.splits)

lemma initialize_propagates:
  assumes "\<not> gpm_is_initialized s" and "fst (fetch_and_set_gas_price reply now s) = Inl e"
    and "\<not> is_Exception e"
  shows "GasPriceManager_initialize reply now s = (Inl e, s)"
    and "GasPriceManagerSync_initialize reply now ts s = (Inl e, s)"
  using assms fetch_and_set_failure [OF assms(2)]
  by (auto simp: GasPriceManager_initialize_def GasPriceManagerSync_initialize_def
      split: prod.splits sum.splits)

lemma initialize_success:
  assumes "\<not> gpm_is_initialized s" and "fst (fetch_and_set_gas_price reply now s) = Inr g"
  shows "GasPriceManager_initialize reply now s =
           (Inr (), s\<lparr>gpm_gas_price := Some \<lparr>gas_estimate = g, timestamp = now\<rparr>,
                      gpm_refresh_started := True, gpm_is_initialized := True\<rparr>)"
    and "GasPriceManagerSync_initialize reply now None s =
           (Inr (), s\<lparr>gpm_gas_price := Some \<lparr>gas_estimate = g, timestamp = now\<rparr>,
                      gpm_refresh_started := True, gpm_is_initialized := True\<rparr>)"
  using assms fetch_and_set_success [OF assms(2)]
  by (auto simp: GasPriceManager_initialize_def GasPriceManagerSync_initialize_def
      split: prod.splits sum.splits)

lemma initialize_raises_only_base:
  "fst (GasPriceManager_initialize reply now s) = Inl e \<Longrightarrow> \<not> is_Exception e"
  "fst (GasPriceManagerSync_initialize reply now thread_start s) = Inl e \<Longrightarrow> \<not> is_Exception e"
  by (auto simp: GasPriceManager_initialize_def GasPriceManagerSync_initialize_def
      split: prod.splits sum.splits option.splits if_splits)

text \<open>
  Claim C9, as the code has it. Neither \<open>initialize\<close> lets an \<open>Exception\<close> out: whatever
  it raises is a \<open>BaseException\<close> that \<open>except Exception\<close> does not catch. If the manager
  is not yet initialised and the initial fetch fails with an \<open>Exception\<close> \<open>e\<close>, the call
  returns normally and changes nothing but the log (the fetch's error line, then the
  initialisation's): the manager stays uninitialised, no gas price is stored, no refresh
  loop is started, and a later \<open>initialize\<close> whose fetch succeeds makes the manager
  active. If the fetch ends with a cancellation or an interrupt instead, that leaves
  \<open>initialize\<close> as an exception, with the manager as it was.
\<close>

theorem initialize_catches_exceptions:
  "(fst (GasPriceManager_initialize reply now s) = Inl e
      \<or> fst (GasPriceManagerSync_initialize reply now thread_start s) = Inl e
      \<longrightarrow> \<not> is_Exception e)
   \<and> (\<not> gpm_is_initialized s \<and> fst (fetch_and_set_gas_price reply now s) = Inl e
        \<and> is_Exception e \<longrightarrow>
        fst (GasPriceManager_initialize reply now s) = Inr ()
        \<and> fst (GasPriceManagerSync_initialize reply now thread_start s) = Inr ()
        \<and> (\<forall>s'. s' = snd (GasPriceManager_initialize reply now s)
               \<or> s' = snd (GasPriceManagerSync_initialize reply now thread_start s) \<longrightarrow>
           \<not> gpm_is_initialized s'
           \<and> gpm_gas_price s' = gpm_gas_price s
           \<and> gpm_refresh_started s' = gpm_refresh_started s
           \<and> gpm_log s' = gpm_log s @ [LogError ''Failed to fetch gas price'' e,
                                       LogError ''Failed to initialize gas price manager'' e]
           \<and> (\<forall>reply2 now2 g.
                 fst (fetch_and_set_gas_price reply2 now2 s) = Inr g \<longrightarrow>
                   gpm_is_initialized (snd (GasPriceManager_initialize reply2 now2 s'))
                   \<and> gpm_is_initialized (snd (GasPriceManagerSync_initialize reply2 now2 None s'))
                   \<and> get_gas_price (snd (GasPriceManager_initialize reply2 now2 s')) = Some g
                   \<and> get_gas_price (snd (GasPriceManagerSync_initialize reply2 now2 None s')) = Some g)))
   \<and> (\<not> gpm_is_initialized s \<and> fst (fetch_and_set_gas_price reply now s) = Inl e
        \<and> \<not> is_Exception e \<longrightarrow>
        GasPriceManager_initialize reply now s = (Inl e, s)
        \<and> GasPriceManagerSync_initialize reply now thread_start s = (Inl e, s))"
proof (intro conjI impI allI)
  assume "fst (GasPriceManager_initialize reply now s) = Inl e
      \<or> fst (GasPriceManagerSync_initialize reply now thread_start s) = Inl e"
  then show "\<not> is_Exception e"
    using initialize_raises_only_base by blast
next
  assume a: "\<not> gpm_is_initialized s \<and> fst (fetch_and_set_gas_price reply now s) = Inl e
        \<and> is_Exception e"
  then have ni0: "\<not> gpm_is_initialized s"
    and ff: "fst (fetch_and_set_gas_price reply now s) = Inl e"
    and ex: "is_Exception e" by simp_all
  show "fst (GasPriceManager_initialize reply now s) = Inr ()"
    by (simp add: initialize_failure(1) [OF ni0 ff ex])
  show "fst (GasPriceManagerSync_initialize reply now thread_start s) = Inr ()"
    by (simp add: initialize_failure(2) [OF ni0 ff ex])
  fix s'
  assume b: "s' = snd (GasPriceManager_initialize reply now s)
               \<or> s' = snd (GasPriceManagerSync_initialize reply now thread_start s)"
  from b initialize_failure(1) [OF ni0 ff ex]
    initialize_failure(2) [OF ni0 ff ex, of thread_start]
  have s': "s' = s\<lparr>gpm_log := gpm_log s @ [LogError ''Failed to fetch gas price'' e,
                                              LogError ''Failed to initialize gas price manager'' e]\<rparr>"
    by auto
  show "\<not> gpm_is_initialized s'" "gpm_gas_price s' = gpm_gas_price s"
    "gpm_refresh_started s' = gpm_refresh_started s"
    "gpm_log s' = gpm_log s @ [LogError ''Failed to fetch gas price'' e,
                                       LogError ''Failed to initialize gas price manager'' e]"
    using ni0 by (simp_all add: s')
  fix reply2 now2 g
  assume c: "fst (fetch_and_set_gas_price reply2 now2 s) = Inr g"
  have ni: "\<not> gpm_is_initialized s'" using ni0 by (simp add: s')
  have "fst (fetch_and_set_gas_price reply2 now2 s') = Inr g"
    using c fetch_and_set_independent [of s' s reply2 now2] by (simp add: s')
  from initialize_success [OF ni this]
  show "gpm_is_initialized (snd (GasPriceManager_initialize reply2 now2 s'))"
    "gpm_is_initialized (snd (GasPriceManagerSync_initialize reply2 now2 None s'))"
    "get_gas_price (snd (GasPriceManager_initialize reply2 now2 s')) = Some g"
    "get_gas_price (snd (GasPriceManagerSync_initialize reply2 now2 None s')) = Some g"
    by (simp_all add: get_gas_price_def)
next
  assume a: "\<not> gpm_is_initialized s \<and> fst (fetch_and_set_gas_price reply now s) = Inl e
        \<and> \<not> is_Exception e"
  then have ni0: "\<not> gpm_is_initialized s"
    and ff: "fst (fetch_and_set_gas_price reply now s) = Inl e"
    and ex: "\<not> is_Exception e" by simp_all
  show "GasPriceManager_initialize reply now s = (Inl e, s)"
    by (rule initialize_propagates(1) [OF ni0 ff ex])
  show "GasPriceManagerSync_initialize reply now thread_start s = (Inl e, s)"
    by (rule initialize_propagates(2) [OF ni0 ff ex])
qed

lemma demo_fetch_fails:
  "fst (fetch_and_set_gas_price (HttpStatus 503 ''busy'') 0 (new_GasPriceManager 2))
     = Inl (FetchGasPriceFailed 503 ''busy'')"
  by (simp add: fetch_and_set_gas_price_def fetch_gas_price_estimation_def)

lemma demo_fetch_succeeds:
  "fst (fetch_and_set_gas_price (EstimateBody (Some 100)) 5 (new_GasPriceManager 2)) = Inr 200"
  by (simp add: fetch_and_set_gas_price_def fetch_gas_price_estimation_def
      new_GasPriceManager_def py_int_of_real_def)

lemma demo_fetch_cancelled:
  "fst (fetch_and_set_gas_price (RequestRaised CancelledError) 0 (new_GasPriceManager 2))
     = Inl CancelledError"
  by (simp add: fetch_and_set_gas_price_def fetch_gas_price_estimation_def)

theorem initialize_catches_exceptions_witness:
  "\<not> gpm_is_initialized (new_GasPriceManager 2)
   \<and> fst (fetch_and_set_gas_price (HttpStatus 503 ''busy'') 0 (new_GasPriceManager 2))
       = Inl (FetchGasPriceFailed 503 ''busy'')
   \<and> is_Exception (FetchGasPriceFailed 503 ''busy'')
   \<and> fst (GasPriceManager_initialize (HttpStatus 503 ''busy'') 0 (new_GasPriceManager 2)) = Inr ()
   \<and> \<not> gpm_is_initialized
         (snd (GasPriceManager_initialize (HttpStatus 503 ''busy'') 0 (new_GasPriceManager 2)))
   \<and> gpm_gas_price
         (snd (GasPriceManager_initialize (HttpStatus 503 ''busy'') 0 (new_GasPriceManager 2))) = None
   \<and> fst (fetch_and_set_gas_price (EstimateBody (Some 100)) 5 (new_GasPriceManager 2)) = Inr 200
   \<and> gpm_is_initialized
        (snd (GasPriceManager_initialize (EstimateBody (Some 100)) 5
           (snd (GasPriceManager_initialize (HttpStatus 503 ''busy'') 0 (new_GasPriceManager 2)))))
   \<and> fst (fetch_and_set_gas_price (RequestRaised CancelledError) 0 (new_GasPriceManager 2))
       = Inl CancelledError
   \<and> \<not> is_Exception CancelledError
   \<and> GasPriceManager_initialize (RequestRaised CancelledError) 0 (new_GasPriceManager 2)
       = (Inl CancelledError, new_GasPriceManager 2)"
proof -
  have a: "\<not> gpm_is_initialized (new_GasPriceManager 2)
           \<and> fst (fetch_and_set_gas_price (HttpStatus 503 ''busy'') 0 (new_GasPriceManager 2))
               = Inl (FetchGasPriceFailed 503 ''busy'')
           \<and> is_Exception (FetchGasPriceFailed 503 ''busy'')"
    by (simp add: demo_fetch_fails is_Exception_def) (simp add: new_GasPriceManager_def)
  have b: "\<not> gpm_is_initialized (new_GasPriceManager 2)
           \<and> fst (fetch_and_set_gas_price (RequestRaised CancelledError) 0 (new_GasPriceManager 2))
               = Inl CancelledError
           \<and> \<not> is_Exception CancelledError"
    by (simp add: demo_fetch_cancelled is_Exception_def) (simp add: new_GasPriceManager_def)
  note t = initialize_catches_exceptions [of "HttpStatus 503 ''busy''" 0 "new_GasPriceManager 2"
      "FetchGasPriceFailed 503 ''busy''" None]
  note u = t [THEN conjunct2, THEN conjunct1, THEN mp, OF a]
  note v = u [THEN conjunct2, THEN conjunct2, rule_format, OF disjI1, OF refl]
  note w = initialize_catches_exceptions [of "RequestRaised CancelledError" 0
      "new_GasPriceManager 2" CancelledError None,
      THEN conjunct2, THEN conjunct2, THEN mp, OF b]
  from a b u [THEN conjunct1] v [THEN conjunct1] v [THEN conjunct2, THEN conjunct1]
    v [THEN conjunct2, THEN conjunct2, THEN conjunct2, THEN conjunct2, rule_format,
       OF demo_fetch_succeeds, THEN conjunct1]
    demo_fetch_succeeds w [THEN conjunct1]
  show ?thesis by (simp add: new_GasPriceManager_def)
qed

text \<open>
  The claim as stated fails: when the task is cancelled while the async \<open>initialize\<close>
  awaits the fetch, \<open>CancelledError\<close> passes both \<open>except Exception\<close> clauses and leaves
  \<open>initialize\<close>; in the sync manager a \<open>KeyboardInterrupt\<close> during the request does the
  same.
\<close>

theorem initialize_cancelled_counterexample:
  "fst (GasPriceManager_initialize (RequestRaised CancelledError) 0 (new_GasPriceManager 2))
     = Inl CancelledError
   \<and> fst (GasPriceManagerSync_initialize (RequestRaised KeyboardInterrupt) 0 None
            (new_GasPriceManager 2)) = Inl KeyboardInterrupt"
  by (simp add: GasPriceManager_initialize_def GasPriceManagerSync_initialize_def
      fetch_and_set_gas_price_def fetch_gas_price_estimation_def is_Exception_def
      new_GasPriceManager_def)


end
